theory Spec2Isabelle
  imports Complex_Main
begin

section \<open>JavaScript numbers\<close>

text \<open>
  A JavaScript Number is an IEEE 754 double. The model keeps the exact mathematical value
  of a finite double as a rational, and the two infinities. The values \<open>+0\<close> and \<open>-0\<close> are
  both \<open>Fin 0\<close>: the operations app.js applies to numbers (\<open><\<close>, \<open><=\<close>, \<open>*\<close>, \<open>toFixed\<close>,
  \<open>includes\<close>) do not tell them apart. \<open>NaN\<close> is kept out of the type: a number that may be
  \<open>NaN\<close> has type \<open>number\<close>, where \<open>None\<close> is \<open>NaN\<close>.
\<close>

datatype jsnum = NegInf | Fin rat | PosInf

type_synonym number = "jsnum option"

text \<open>The relational operators \<open><\<close> and \<open><=\<close> on numbers that are not \<open>NaN\<close>.\<close>

fun js_lt :: "jsnum \<Rightarrow> jsnum \<Rightarrow> bool" where
  "js_lt PosInf _ = False"
| "js_lt _ NegInf = False"
| "js_lt NegInf _ = True"
| "js_lt _ PosInf = True"
| "js_lt (Fin a) (Fin b) = (a < b)"

fun js_le :: "jsnum \<Rightarrow> jsnum \<Rightarrow> bool" where
  "js_le NegInf _ = True"
| "js_le _ PosInf = True"
| "js_le PosInf _ = False"
| "js_le _ NegInf = False"
| "js_le (Fin a) (Fin b) = (a \<le> b)"

instantiation jsnum :: linorder
begin

definition less_eq_jsnum :: "jsnum \<Rightarrow> jsnum \<Rightarrow> bool" where
  "less_eq_jsnum a b = js_le a b"

definition less_jsnum :: "jsnum \<Rightarrow> jsnum \<Rightarrow> bool" where
  "less_jsnum a b = js_lt a b"

instance
proof
  fix x y z :: jsnum
  show "(x < y) = (x \<le> y \<and> \<not> y \<le> x)"
    unfolding less_eq_jsnum_def less_jsnum_def by (cases x; cases y) auto
  show "x \<le> x"
    unfolding less_eq_jsnum_def by (cases x) auto
  show "x \<le> y \<Longrightarrow> y \<le> z \<Longrightarrow> x \<le> z"
    unfolding less_eq_jsnum_def by (cases x; cases y; cases z) auto
  show "x \<le> y \<Longrightarrow> y \<le> x \<Longrightarrow> x = y"
    unfolding less_eq_jsnum_def by (cases x; cases y) auto
  show "x \<le> y \<or> y \<le> x"
    unfolding less_eq_jsnum_def by (cases x; cases y) auto
qed

end

subsection \<open>Rounding to a double\<close>

text \<open>
  The result of an arithmetic operation, and the value of a numeric literal, is the exact
  result rounded to the nearest double, ties to the even significand. A double has 53
  significant bits; its exponent \<open>e\<close> (with \<open>2^e \<le> |x| < 2^(e+1)\<close>) is at least \<open>-1022\<close>,
  below which the spacing stays \<open>2^-1074\<close> (subnormals); a result of magnitude \<open>2^1024\<close> or
  more is an infinity. The rounded magnitude is \<open>n * 2^(e-52)\<close> with \<open>n \<le> 2^53\<close>, which
  reaches \<open>2^1024\<close> when \<open>e > 1023\<close>, or \<open>e = 1023\<close> and \<open>n = 2^53\<close>.
\<close>

definition pow2 :: "int \<Rightarrow> rat" where
  "pow2 k = (if 0 \<le> k then 2 ^ nat k else 1 / 2 ^ nat (- k))"

function bits :: "int \<Rightarrow> int" where
  "bits n = (if n \<le> 0 then 0 else 1 + bits (n div 2))"
  by pat_completeness auto
termination
  by (relation "measure nat") auto

declare bits.simps [simp del]

definition floor_log2 :: "rat \<Rightarrow> int" where
  "floor_log2 x =
     (if 1 \<le> x then bits \<lfloor>x\<rfloor> - 1 else - bits (\<lceil>1 / x\<rceil> - 1))"

definition round_half_even :: "rat \<Rightarrow> int" where
  "round_half_even y =
     (let n = \<lfloor>y\<rfloor>; d = y - of_int n
      in if d < 1 / 2 then n else if 1 / 2 < d then n + 1 else if even n then n else n + 1)"

definition round_double :: "rat \<Rightarrow> jsnum" where
  "round_double x =
     (if x = 0 then Fin 0
      else
        let a = \<bar>x\<bar>;
            e = max (floor_log2 a) (- 1022);
            q = pow2 (e - 52);
            n = round_half_even (a / q);
            r = of_int n * q
        in if 1023 < e \<or> (e = 1023 \<and> n = 2 ^ 53) then (if x < 0 then NegInf else PosInf)
           else Fin (if x < 0 then - r else r))"

text \<open>The operator \<open>*\<close>: an infinity times zero is \<open>NaN\<close>.\<close>

fun js_mul :: "jsnum \<Rightarrow> jsnum \<Rightarrow> number" where
  "js_mul (Fin a) (Fin b) = Some (round_double (a * b))"
| "js_mul (Fin a) PosInf = (if a = 0 then None else Some (if a < 0 then NegInf else PosInf))"
| "js_mul (Fin a) NegInf = (if a = 0 then None else Some (if a < 0 then PosInf else NegInf))"
| "js_mul PosInf (Fin b) = (if b = 0 then None else Some (if b < 0 then NegInf else PosInf))"
| "js_mul NegInf (Fin b) = (if b = 0 then None else Some (if b < 0 then PosInf else NegInf))"
| "js_mul PosInf PosInf = Some PosInf"
| "js_mul NegInf NegInf = Some PosInf"
| "js_mul PosInf NegInf = Some NegInf"
| "js_mul NegInf PosInf = Some NegInf"

subsection \<open>Number.prototype.toFixed\<close>

text \<open>
  Strings are lists of code units; the model has the code units below 256.
  \<open>digits_of n\<close> is the decimal representation of \<open>n \<ge> 0\<close> with no leading zero.
\<close>

definition digit_char :: "int \<Rightarrow> char" where
  "digit_char d = ''0123456789'' ! nat d"

function digits_of :: "int \<Rightarrow> string" where
  "digits_of n =
     (if n < 10 then [digit_char n] else digits_of (n div 10) @ [digit_char (n mod 10)])"
  by pat_completeness auto
termination
  by (relation "measure nat") auto

declare digits_of.simps [simp del]

text \<open>
  \<open>Number::toString\<close> for a finite \<open>x \<ge> 10^21\<close>, the only values \<open>toFixed\<close> hands to it:
  the integers \<open>n\<close>, \<open>k\<close>, \<open>s\<close> with \<open>10^(k-1) \<le> s < 10^k\<close>, \<open>s * 10^(n-k)\<close> rounding to \<open>x\<close>
  and \<open>k\<close> as small as possible (among two such \<open>s\<close> the one nearer to \<open>x\<close>), printed in
  exponent notation since \<open>n > 21\<close>. Seventeen digits identify every double; \<open>shortest\<close>
  tries \<open>k = 1, ..., 17\<close>.
\<close>

definition closer :: "rat \<Rightarrow> rat \<Rightarrow> int \<Rightarrow> int \<Rightarrow> bool" where
  "closer x u s t =
     (let ds = \<bar>of_int s * u - x\<bar>; dt = \<bar>of_int t * u - x\<bar>
      in ds < dt \<or> (ds = dt \<and> even s))"

fun shortest :: "rat \<Rightarrow> int \<Rightarrow> nat \<Rightarrow> nat \<Rightarrow> int \<times> int" where
  "shortest x n k 0 = (\<lfloor>x / 10 ^ nat (n - int k)\<rfloor>, n)"
| "shortest x n k (Suc fuel) =
     (let u = 10 ^ nat (n - int k);
          lo = \<lfloor>x / u\<rfloor>;
          hi = lo + 1;
          ok_lo = (round_double (of_int lo * u) = Fin x);
          ok_hi = (round_double (of_int hi * u) = Fin x)
      in if ok_lo \<and> (\<not> ok_hi \<or> closer x u lo hi) then (lo, n)
         else if ok_hi then (if hi = 10 ^ k then (10 ^ (k - 1), n + 1) else (hi, n))
         else shortest x n (Suc k) fuel)"

declare shortest.simps [simp del]

definition toString_exp :: "rat \<Rightarrow> string" where
  "toString_exp x =
     (let (s, n) = shortest x (int (length (digits_of \<lfloor>x\<rfloor>))) 1 17;
          d = digits_of s;
          e = ''e+'' @ digits_of (n - 1)
      in if length d = 1 then d @ e else take 1 d @ ''.'' @ drop 1 d @ e)"

text \<open>
  \<open>x.toFixed(f)\<close>, following ECMA-262: a value that is not finite prints as
  \<open>Number::toString\<close> does; a negative value prints a minus sign and then its magnitude; a
  magnitude of \<open>10^21\<close> or more prints as \<open>Number::toString\<close> does; otherwise the integer
  \<open>n\<close> nearest to \<open>x * 10^f\<close> (the larger of two) is printed with a point before its last
  \<open>f\<close> digits, padded with zeros to \<open>f + 1\<close> digits.  Every call in app.js passes a literal
  \<open>f\<close> from 1 to 4, so the \<open>RangeError\<close> for \<open>f > 100\<close> does not arise.
\<close>

fun toFixed :: "number \<Rightarrow> nat \<Rightarrow> string" where
  "toFixed None f = ''NaN''"
| "toFixed (Some PosInf) f = ''Infinity''"
| "toFixed (Some NegInf) f = ''-Infinity''"
| "toFixed (Some (Fin v)) f =
     (let s = (if v < 0 then ''-'' else []);
          x = (if v < 0 then - v else v)
      in if 10 ^ 21 \<le> x then s @ toString_exp x
         else
           let n = \<lfloor>x * 10 ^ f + 1 / 2\<rfloor>;
               m = digits_of n
           in if f \<noteq> 0 then
                let m = (if length m \<le> f then replicate (f + 1 - length m) CHR ''0'' @ m else m);
                    k = length m
                in s @ take (k - f) m @ ''.'' @ drop (k - f) m
              else s @ m)"

declare toFixed.simps [simp del]

section \<open>The data model\<close>

text \<open>
  A recommendation record of the response of \<open>/api/recommend\<close>. The response body is
  decoded by \<open>res.json()\<close>; JSON has no literal for \<open>NaN\<close>, so a decoded number is a
  \<open>jsnum\<close>. The model has the records whose numeric fields are numbers. For the cost,
  the emissions and the eco score any other value stops the first loop of displayResults
  with a \<open>TypeError\<close> (\<open>toFixed\<close> is a method of numbers only), before a selection is made
  or a row is built. The suitability score is multiplied before it is formatted, which
  would coerce another value; the model takes it as the number that the specification's
  data model says it is.
\<close>

record recommendation =
  material_name :: string
  material_type :: string
  suitability_score :: jsnum
  predicted_cost_inr :: jsnum
  predicted_co2_kg :: jsnum
  eco_score :: jsnum

text \<open>An exception that is thrown, with its message.\<close>

datatype js_error = TypeError string | Error string

section \<open>Extrema selection in displayResults\<close>

text \<open>
  \<open>Array.prototype.reduce\<close> without an initial value: the first element starts the
  accumulator and the callback is applied to the others from left to right; an empty
  array throws a \<open>TypeError\<close>.
\<close>

fun reduce :: "('a \<Rightarrow> 'a \<Rightarrow> 'a) \<Rightarrow> 'a list \<Rightarrow> js_error + 'a" where
  "reduce f [] = Inl (TypeError ''Reduce of empty array with no initial value'')"
| "reduce f (x # xs) = Inr (foldl f x xs)"

definition lowestCost :: "recommendation list \<Rightarrow> js_error + recommendation" where
  "lowestCost recs =
     reduce (\<lambda>a b. if js_lt (predicted_cost_inr b) (predicted_cost_inr a) then b else a) recs"

definition lowestCO2 :: "recommendation list \<Rightarrow> js_error + recommendation" where
  "lowestCO2 recs =
     reduce (\<lambda>a b. if js_lt (predicted_co2_kg b) (predicted_co2_kg a) then b else a) recs"

subsection \<open>The reference scan of the specification\<close>

text \<open>
  The specification's words: a single linear pass with running minimum tracking, in which
  a later record replaces the tracked one only when it is strictly smaller than the
  running minimum; and the first-encountered minimal element, the earliest record whose
  key is the least key of the sequence.
\<close>

fun running_min :: "('a \<Rightarrow> jsnum) \<Rightarrow> 'a \<Rightarrow> jsnum \<Rightarrow> 'a list \<Rightarrow> 'a" where
  "running_min key best m [] = best"
| "running_min key best m (x # xs) =
     (if key x < m then running_min key x (key x) xs else running_min key best m xs)"

definition spec_linear_pass :: "('a \<Rightarrow> jsnum) \<Rightarrow> 'a list \<Rightarrow> 'a option" where
  "spec_linear_pass key xs =
     (case xs of [] \<Rightarrow> None | x # rest \<Rightarrow> Some (running_min key x (key x) rest))"

definition spec_first_minimal :: "('a \<Rightarrow> jsnum) \<Rightarrow> 'a list \<Rightarrow> 'a option" where
  "spec_first_minimal key xs = List.find (\<lambda>x. key x = Min (key ` set xs)) xs"

section \<open>The page\<close>

text \<open>
  The state of the document that app.js reads and writes, one field for each element it
  looks up with \<open>getElementById\<close>, and the module variable \<open>comparisonChart\<close>. The content
  that a template literal assigns to \<open>innerHTML\<close> is kept as the values substituted into
  the template, with the text that follows a value inside its element (\<open>%\<close>, \<open> kg\<close>); the
  tags and the fixed labels are left out, and so is the rupee sign that precedes a cost
  (U+20B9, not a code unit of the model's strings).
\<close>

record alert_box =
  textContent :: string
  display :: string
  className :: string

record material_card =
  card_className :: string
  card_name :: string
  card_suitability :: string
  card_cost :: string
  card_co2 :: string
  card_eco :: string

record analytics_box =
  box_value :: string
  box_sub :: string

record analytics =
  lowest_cost_box :: analytics_box
  lowest_co2_box :: analytics_box
  best_overall_box :: analytics_box

record chart =
  labels :: "string list"
  cost_data :: "jsnum list"
  co2_data :: "jsnum list"

record table_row =
  row_name :: string
  row_type :: string
  row_suitability :: string
  row_cost :: string
  row_co2 :: string
  row_eco :: string
  row_rank :: string

record comparison_card =
  cmp_material :: string
  cmp_details :: "string list"

record page =
  alertBox :: alert_box
  categorySelect_value :: string
  categorySelect_options :: "string list"
  weightInput_value :: string
  fragilitySelect_value :: string
  budgetInput_value :: string
  currentMaterialSelect_value :: string
  currentMaterialSelect_options :: "string list"
  topNSelect_value :: string
  materialsGrid :: "material_card list"
  analyticsGrid :: "analytics option"
  comparisonChart :: "chart option"
  summaryTbody :: "table_row list"
  resultsSection_display :: string
  savingsSection_display :: string
  savingsMetrics :: "analytics_box list"
  savingsDetails :: "comparison_card list"
  recommendBtn_disabled :: bool

subsection \<open>UI helpers\<close>

definition setLoading :: "bool \<Rightarrow> page \<Rightarrow> page" where
  "setLoading state p = p\<lparr>recommendBtn_disabled := state\<rparr>"

definition showAlert :: "string \<Rightarrow> string \<Rightarrow> page \<Rightarrow> page" where
  "showAlert type msg p =
     p\<lparr>alertBox := \<lparr>textContent = msg, display = ''block'', className = ''alert-box '' @ type\<rparr>\<rparr>"

definition hideAlert :: "page \<Rightarrow> page" where
  "hideAlert p = p\<lparr>alertBox := (alertBox p)\<lparr>display := ''none'', textContent := []\<rparr>\<rparr>"

definition resetResults :: "page \<Rightarrow> page" where
  "resetResults p = p\<lparr>resultsSection_display := ''none'', savingsSection_display := ''none''\<rparr>"

definition resetUI :: "page \<Rightarrow> page" where
  "resetUI p = resetResults (hideAlert p)"

subsection \<open>displayResults, renderChart and buildTable\<close>

text \<open>The percentage \<open>(r.suitability_score * 100).toFixed(1)\<close>.\<close>

definition percent :: "jsnum \<Rightarrow> string" where
  "percent s = toFixed (js_mul s (Fin 100)) 1"

text \<open>
  The card of the record at index \<open>i\<close>, and the loop \<open>recs.forEach((r, i) => ...)\<close> that
  appends one card for each record to the grid.
\<close>

definition make_card :: "recommendation \<Rightarrow> nat \<Rightarrow> material_card" where
  "make_card r i =
     \<lparr>card_className = ''material-card'' @ (if i = 0 then '' best'' else []),
      card_name = material_name r,
      card_suitability = percent (suitability_score r) @ ''%'',
      card_cost = toFixed (Some (predicted_cost_inr r)) 2,
      card_co2 = toFixed (Some (predicted_co2_kg r)) 4 @ '' kg'',
      card_eco = toFixed (Some (eco_score r)) 3\<rparr>"

fun append_cards :: "nat \<Rightarrow> recommendation list \<Rightarrow> material_card list \<Rightarrow> material_card list" where
  "append_cards i [] grid = grid"
| "append_cards i (r # rs) grid = append_cards (Suc i) rs (grid @ [make_card r i])"

definition renderChart :: "recommendation list \<Rightarrow> page \<Rightarrow> page" where
  "renderChart recs p =
     p\<lparr>comparisonChart :=
         Some \<lparr>labels = map material_name recs,
               cost_data = map predicted_cost_inr recs,
               co2_data = map predicted_co2_kg recs\<rparr>\<rparr>"

text \<open>The row of the record at index \<open>i\<close>; its last cell is \<open>i + 1\<close>.\<close>

definition make_row :: "recommendation \<Rightarrow> nat \<Rightarrow> table_row" where
  "make_row r i =
     \<lparr>row_name = material_name r,
      row_type = material_type r,
      row_suitability = percent (suitability_score r) @ ''%'',
      row_cost = toFixed (Some (predicted_cost_inr r)) 2,
      row_co2 = toFixed (Some (predicted_co2_kg r)) 4 @ '' kg'',
      row_eco = toFixed (Some (eco_score r)) 3,
      row_rank = digits_of (int i + 1)\<rparr>"

fun append_rows :: "nat \<Rightarrow> recommendation list \<Rightarrow> table_row list \<Rightarrow> table_row list" where
  "append_rows i [] tbody = tbody"
| "append_rows i (r # rs) tbody = append_rows (Suc i) rs (tbody @ [make_row r i])"

definition buildTable :: "recommendation list \<Rightarrow> page \<Rightarrow> page" where
  "buildTable recs p = p\<lparr>summaryTbody := append_rows 0 recs []\<rparr>"

text \<open>\<open>recs[i]\<close>: \<open>undefined\<close>, here \<open>None\<close>, beyond the end of the array.\<close>

definition at_index :: "'a list \<Rightarrow> nat \<Rightarrow> 'a option" where
  "at_index xs i = (if i < length xs then Some (xs ! i) else None)"

text \<open>
  \<open>displayResults(recs)\<close>. The argument is \<open>data.recommendations\<close>: \<open>None\<close> when the field
  is absent. The result is the page, or the exception thrown with the page as it was
  then. The call of \<open>scrollIntoView\<close> moves the viewport and leaves the document alone.
\<close>

definition displayResults :: "recommendation list option \<Rightarrow> page \<Rightarrow> js_error \<times> page + page" where
  "displayResults recs_opt p =
     (case recs_opt of
        None \<Rightarrow> Inr (showAlert ''warning'' ''No recommendations found.'' p)
      | Some recs \<Rightarrow>
          if length recs = 0 then Inr (showAlert ''warning'' ''No recommendations found.'' p)
          else
            let p = p\<lparr>materialsGrid := append_cards 0 recs []\<rparr> in
            case lowestCost recs of
              Inl e \<Rightarrow> Inl (e, p)
            | Inr lowCost \<Rightarrow>
                (case lowestCO2 recs of
                   Inl e \<Rightarrow> Inl (e, p)
                 | Inr lowCO2 \<Rightarrow>
                     (case at_index recs 0 of
                        None \<Rightarrow> Inl (TypeError ''Cannot read properties of undefined'', p)
                      | Some best \<Rightarrow>
                          let p = p\<lparr>analyticsGrid := Some
                                \<lparr>lowest_cost_box =
                                   \<lparr>box_value = material_name lowCost,
                                    box_sub = toFixed (Some (predicted_cost_inr lowCost)) 2\<rparr>,
                                 lowest_co2_box =
                                   \<lparr>box_value = material_name lowCO2,
                                    box_sub = toFixed (Some (predicted_co2_kg lowCO2)) 4 @ '' kg''\<rparr>,
                                 best_overall_box =
                                   \<lparr>box_value = material_name best,
                                    box_sub = ''Eco Score: '' @ toFixed (Some (eco_score best)) 3\<rparr>\<rparr>\<rparr>;
                              p = renderChart recs p;
                              p = buildTable recs p
                          in Inr (p\<lparr>resultsSection_display := ''block''\<rparr>))))"

subsection \<open>displaySavings\<close>

record comparison =
  current_material :: string
  recommended_material :: string
  current_cost_inr :: jsnum
  recommended_cost_inr :: jsnum
  current_co2_kg :: jsnum
  recommended_co2_kg :: jsnum
  cost_difference_inr :: jsnum
  co2_savings_kg :: jsnum
  co2_reduction_percent :: jsnum
  recommended_eco_score :: jsnum

definition displaySavings :: "comparison \<Rightarrow> page \<Rightarrow> page" where
  "displaySavings cmp p =
     p\<lparr>savingsSection_display := ''block'',
       savingsMetrics :=
         [\<lparr>box_value = toFixed (Some (co2_reduction_percent cmp)) 1 @ ''%'',
           box_sub = toFixed (Some (co2_savings_kg cmp)) 4 @ '' kg saved''\<rparr>,
          \<lparr>box_value = toFixed (Some (cost_difference_inr cmp)) 2,
           box_sub = ''per unit''\<rparr>,
          \<lparr>box_value = toFixed (Some (recommended_eco_score cmp)) 3,
           box_sub = ''eco score''\<rparr>],
       savingsDetails :=
         [\<lparr>cmp_material = current_material cmp,
           cmp_details = [toFixed (Some (current_cost_inr cmp)) 2,
                          toFixed (Some (current_co2_kg cmp)) 4 @ '' kg'']\<rparr>,
          \<lparr>cmp_material = recommended_material cmp,
           cmp_details = [toFixed (Some (recommended_cost_inr cmp)) 2,
                          toFixed (Some (recommended_co2_kg cmp)) 4 @ '' kg'',
                          toFixed (Some (recommended_eco_score cmp)) 3]\<rparr>]\<rparr>"

section \<open>Reading the form\<close>

text \<open>
  White space, as \<open>trim\<close>, \<open>parseInt\<close> and \<open>parseFloat\<close> strip it: among the code units below
  256 these are tab, line feed, vertical tab, form feed, carriage return, space and the
  no-break space.
\<close>

definition is_space :: "char \<Rightarrow> bool" where
  "is_space c = (c \<in> set [CHR 0x09, CHR 0x0A, CHR 0x0B, CHR 0x0C, CHR 0x0D, CHR 0x20, CHR 0xA0])"

definition trim :: "string \<Rightarrow> string" where
  "trim s = rev (dropWhile is_space (rev (dropWhile is_space s)))"

definition is_digit :: "char \<Rightarrow> bool" where
  "is_digit c = (c \<in> set ''0123456789'')"

definition digit_val :: "char \<Rightarrow> int" where
  "digit_val c = int (length (takeWhile (\<lambda>d. d \<noteq> c) ''0123456789''))"

definition digits_value :: "string \<Rightarrow> int" where
  "digits_value ds = foldl (\<lambda>acc c. 10 * acc + digit_val c) 0 ds"

text \<open>
  \<open>parseInt(s, 10)\<close>: leading white space is dropped, then a sign, and the longest run of
  decimal digits that follows is read; with no digit the result is \<open>NaN\<close>. (For more than
  20 significant digits ECMA-262 lets an implementation read the digits after the 20th
  as zeros; the model reads them all.)
\<close>

definition parseInt :: "string \<Rightarrow> number" where
  "parseInt s =
     (let t = dropWhile is_space s;
          neg = (t \<noteq> [] \<and> hd t = CHR ''-'');
          u = (if t \<noteq> [] \<and> (hd t = CHR ''+'' \<or> hd t = CHR ''-'') then tl t else t);
          z = takeWhile is_digit u
      in if z = [] then None
         else Some (round_double (of_int (if neg then - digits_value z else digits_value z))))"

text \<open>
  \<open>parseFloat(s)\<close>: leading white space is dropped and the longest prefix that is a
  \<open>StrDecimalLiteral\<close> is read: an optional sign, then \<open>Infinity\<close> or decimal digits with an
  optional point and fraction (at least one digit in all), then an optional exponent part
  \<open>e\<close> or \<open>E\<close>, optional sign, digits. With no such prefix the result is \<open>NaN\<close>.
\<close>

definition pow10 :: "int \<Rightarrow> rat" where
  "pow10 k = (if 0 \<le> k then 10 ^ nat k else 1 / 10 ^ nat (- k))"

definition exponent_part :: "string \<Rightarrow> int" where
  "exponent_part r =
     (case r of
        [] \<Rightarrow> 0
      | c # r1 \<Rightarrow>
          if c = CHR ''e'' \<or> c = CHR ''E'' then
            let neg = (r1 \<noteq> [] \<and> hd r1 = CHR ''-'');
                r2 = (if r1 \<noteq> [] \<and> (hd r1 = CHR ''+'' \<or> hd r1 = CHR ''-'') then tl r1 else r1);
                ds = takeWhile is_digit r2
            in if ds = [] then 0 else if neg then - digits_value ds else digits_value ds
          else 0)"

definition parseFloat :: "string \<Rightarrow> number" where
  "parseFloat s =
     (let t = dropWhile is_space s;
          neg = (t \<noteq> [] \<and> hd t = CHR ''-'');
          u = (if t \<noteq> [] \<and> (hd t = CHR ''+'' \<or> hd t = CHR ''-'') then tl t else t)
      in if take 8 u = ''Infinity'' then Some (if neg then NegInf else PosInf)
         else
           let ip = takeWhile is_digit u;
               r1 = dropWhile is_digit u;
               pt = (r1 \<noteq> [] \<and> hd r1 = CHR ''.'');
               fp = (if pt then takeWhile is_digit (tl r1) else []);
               r2 = (if pt then dropWhile is_digit (tl r1) else r1)
           in if ip = [] \<and> fp = [] then None
              else
                let v = of_int (digits_value (ip @ fp)) / 10 ^ length fp * pow10 (exponent_part r2)
                in Some (round_double (if neg then - v else v)))"

section \<open>The external sources\<close>

text \<open>
  What a \<open>fetch\<close> followed by \<open>res.json()\<close> delivers: the promise is rejected, with the
  message of the error (a transport failure, or a body that is not JSON), or it is
  fulfilled with the decoded body, of which the model keeps the \<open>status\<close> field and the
  payload field that the caller reads.
\<close>

datatype 'a response = Rejected string | Body string 'a

text \<open>
  The failures of an external source that the specification names: a transport error, or
  a response whose status is not \<open>success\<close>.
\<close>

definition upstream_failure :: "'a response \<Rightarrow> bool" where
  "upstream_failure res = (case res of Rejected msg \<Rightarrow> True | Body status d \<Rightarrow> status \<noteq> ''success'')"

text \<open>
  The object that \<open>runRecommendation\<close> posts to \<open>/api/recommend\<close>, before \<open>JSON.stringify\<close>
  writes it. \<open>NoBudget\<close> is \<open>null\<close>.
\<close>

datatype budget = NoBudget | Budget number

record recommend_payload =
  category :: string
  weight :: jsnum
  top_n :: jsnum
  fragility_override :: string
  budget_limit :: budget

record compare_payload =
  cmp_category :: string
  cmp_weight :: jsnum
  cmp_current_material :: string

datatype request = PostRecommend recommend_payload | PostCompare compare_payload

text \<open>
  The two services that \<open>runRecommendation\<close> calls, as the answers they give to a
  request.
\<close>

record services =
  recommend :: "recommend_payload \<Rightarrow> recommendation list option response"
  compare :: "compare_payload \<Rightarrow> comparison response"

section \<open>loadCategories and loadMaterials\<close>

text \<open>
  A select of the page is a drop-down with one value, kept as its options and its value.
  \<open>select.appendChild(opt)\<close> adds the option at the end; a select that had no option makes
  the new option the selected one, so that its value becomes the value of that option.
  The handler of each list appends one option for each name, in order.
\<close>

definition appendChild :: "string list \<times> string \<Rightarrow> string \<Rightarrow> string list \<times> string" where
  "appendChild select opt =
     (case select of (options, val) \<Rightarrow> (options @ [opt], if options = [] then opt else val))"

definition loadCategories :: "string list response \<Rightarrow> page \<Rightarrow> page" where
  "loadCategories res p =
     (case res of
        Rejected msg \<Rightarrow> showAlert ''warning'' ''Unable to load product categories.'' p
      | Body status categories \<Rightarrow>
          if status \<noteq> ''success''
          then showAlert ''warning'' ''Unable to load product categories.'' p
          else
            let (options, val) =
                  foldl appendChild (categorySelect_options p, categorySelect_value p) categories
            in p\<lparr>categorySelect_options := options, categorySelect_value := val\<rparr>)"

definition loadMaterials :: "string list response \<Rightarrow> page \<Rightarrow> page" where
  "loadMaterials res p =
     (case res of
        Rejected msg \<Rightarrow> showAlert ''warning'' ''Unable to load materials list.'' p
      | Body status materials \<Rightarrow>
          if status \<noteq> ''success''
          then showAlert ''warning'' ''Unable to load materials list.'' p
          else
            let (options, val) =
                  foldl appendChild
                    (currentMaterialSelect_options p, currentMaterialSelect_value p) materials
            in p\<lparr>currentMaterialSelect_options := options,
                 currentMaterialSelect_value := val\<rparr>)"

section \<open>runRecommendation\<close>

text \<open>The handler of the promise chain: \<open>showAlert("error", err.message || "Something went wrong.")\<close>.\<close>

definition catch_error :: "string \<Rightarrow> page \<Rightarrow> page" where
  "catch_error msg p =
     showAlert ''error'' (if msg = [] then ''Something went wrong.'' else msg) p"

fun message :: "js_error \<Rightarrow> string" where
  "message (TypeError m) = m"
| "message (Error m) = m"

text \<open>\<open>[3, 5, 10].includes(topNRaw) ? topNRaw : 5\<close>\<close>

definition choose_topN :: "number \<Rightarrow> jsnum" where
  "choose_topN topNRaw =
     (case topNRaw of
        None \<Rightarrow> Fin 5
      | Some n \<Rightarrow> if n \<in> set [Fin 3, Fin 5, Fin 10] then n else Fin 5)"

text \<open>
  The second request, made when a current material is selected and the results have been
  displayed: the savings are displayed when the answer has status \<open>success\<close>.
\<close>

definition compare_step :: "services \<Rightarrow> compare_payload \<Rightarrow> page \<Rightarrow> page" where
  "compare_step net body p =
     (case compare net body of
        Rejected msg \<Rightarrow> catch_error msg p
      | Body status cmp \<Rightarrow> if status = ''success'' then displaySavings cmp p else p)"

text \<open>
  \<open>runRecommendation()\<close>, run to the end of its promise chain. The result is the page and
  the requests sent, in order.
\<close>

definition runRecommendation :: "services \<Rightarrow> page \<Rightarrow> page \<times> request list" where
  "runRecommendation net p0 =
     (let p = resetResults (hideAlert p0);
          category = trim (categorySelect_value p);
          weight = parseFloat (weightInput_value p);
          fragility = fragilitySelect_value p;
          budgetRaw = trim (budgetInput_value p);
          currentMaterial = currentMaterialSelect_value p;
          topNRaw = parseInt (topNSelect_value p)
      in if category = [] then (showAlert ''warning'' ''Please select a product category.'' p, [])
         else
           case weight of
             None \<Rightarrow> (showAlert ''warning'' ''Please enter a valid product weight.'' p, [])
           | Some w \<Rightarrow>
               if js_le w (Fin 0)
               then (showAlert ''warning'' ''Please enter a valid product weight.'' p, [])
               else
                 let topN = choose_topN topNRaw;
                     payload = \<lparr>category = category, weight = w, top_n = topN,
                                fragility_override = fragility,
                                budget_limit =
                                  (if budgetRaw \<noteq> [] then Budget (parseFloat budgetRaw) else NoBudget)\<rparr>;
                     p = setLoading True p;
                     body = \<lparr>cmp_category = category, cmp_weight = w,
                             cmp_current_material = currentMaterial\<rparr>;
                     (p, sent) =
                       (case recommend net payload of
                          Rejected msg \<Rightarrow> (catch_error msg p, [PostRecommend payload])
                        | Body status recs \<Rightarrow>
                            if status \<noteq> ''success''
                            then (catch_error ''Recommendation failed'' p, [PostRecommend payload])
                            else
                              (case displayResults recs p of
                                 Inl (e, p) \<Rightarrow> (catch_error (message e) p, [PostRecommend payload])
                               | Inr p \<Rightarrow>
                                   if currentMaterial \<noteq> []
                                   then (compare_step net body p,
                                         [PostRecommend payload, PostCompare body])
                                   else (p, [PostRecommend payload])))
                 in (setLoading False p, sent))"

section \<open>Decimal places\<close>

text \<open>
  What the specification calls a number shown with \<open>f\<close> decimal places: an optional minus
  sign, one or more digits, a point, and exactly \<open>f\<close> digits; and the number that such a
  text denotes.
\<close>

definition fixed_point :: "nat \<Rightarrow> string \<Rightarrow> bool" where
  "fixed_point f s =
     (let t = (if s \<noteq> [] \<and> hd s = CHR ''-'' then tl s else s);
          ip = takeWhile is_digit t;
          r = dropWhile is_digit t
      in ip \<noteq> [] \<and> r \<noteq> [] \<and> hd r = CHR ''.'' \<and> length (tl r) = f \<and> list_all is_digit (tl r))"

definition fixed_value :: "string \<Rightarrow> rat" where
  "fixed_value s =
     (let neg = (s \<noteq> [] \<and> hd s = CHR ''-'');
          t = (if neg then tl s else s);
          ip = takeWhile is_digit t;
          fp = tl (dropWhile is_digit t);
          v = of_int (digits_value (ip @ fp)) / 10 ^ length fp
      in if neg then - v else v)"

section \<open>Example data\<close>

definition bamboo :: recommendation where
  "bamboo =
     \<lparr>material_name = ''Bamboo'', material_type = ''Natural'',
      suitability_score = Fin (3 / 4), predicted_cost_inr = Fin 10,
      predicted_co2_kg = Fin (1 / 2), eco_score = Fin (7 / 8)\<rparr>"

definition plastic :: recommendation where
  "plastic =
     \<lparr>material_name = ''Plastic'', material_type = ''Polymer'',
      suitability_score = Fin (1 / 2), predicted_cost_inr = Fin 5,
      predicted_co2_kg = Fin 2, eco_score = Fin (1 / 4)\<rparr>"

definition jute :: recommendation where
  "jute =
     \<lparr>material_name = ''Jute'', material_type = ''Natural'',
      suitability_score = Fin (5 / 8), predicted_cost_inr = Fin 5,
      predicted_co2_kg = Fin (1 / 2), eco_score = Fin (3 / 4)\<rparr>"

definition blank_page :: page where
  "blank_page =
     \<lparr>alertBox = \<lparr>textContent = [], display = ''none'', className = ''alert-box''\<rparr>,
      categorySelect_value = [],
      categorySelect_options = [],
      weightInput_value = [],
      fragilitySelect_value = ''auto'',
      budgetInput_value = [],
      currentMaterialSelect_value = [],
      currentMaterialSelect_options = [],
      topNSelect_value = ''5'',
      materialsGrid = [],
      analyticsGrid = None,
      comparisonChart = None,
      summaryTbody = [],
      resultsSection_display = ''none'',
      savingsSection_display = ''none'',
      savingsMetrics = [],
      savingsDetails = [],
      recommendBtn_disabled = False\<rparr>"

definition filled_form :: page where
  "filled_form =
     blank_page\<lparr>categorySelect_value := ''Electronics'',
                categorySelect_options := [''Electronics''],
                weightInput_value := ''2.5'',
                currentMaterialSelect_value := ''Plastic'',
                currentMaterialSelect_options := [''Plastic''],
                topNSelect_value := ''10''\<rparr>"

definition example_comparison :: comparison where
  "example_comparison =
     \<lparr>current_material = ''Plastic'', recommended_material = ''Bamboo'',
      current_cost_inr = Fin 5, recommended_cost_inr = Fin 10,
      current_co2_kg = Fin 2, recommended_co2_kg = Fin (1 / 2),
      cost_difference_inr = Fin (- 5), co2_savings_kg = Fin (3 / 2),
      co2_reduction_percent = Fin 75, recommended_eco_score = Fin (7 / 8)\<rparr>"

text \<open>
  Services that answer a recommendation request with two records and a comparison
  request with a status that is not \<open>success\<close>; services whose recommendation request
  fails in transport; and services whose comparison request fails in transport.
\<close>

definition comparison_refused :: services where
  "comparison_refused =
     \<lparr>recommend = (\<lambda>payload. Body ''success'' (Some [bamboo, plastic])),
      compare = (\<lambda>body. Body ''error'' example_comparison)\<rparr>"

definition recommend_unreachable :: services where
  "recommend_unreachable =
     \<lparr>recommend = (\<lambda>payload. Rejected ''Failed to fetch''),
      compare = (\<lambda>body. Rejected ''Failed to fetch'')\<rparr>"

definition comparison_unreachable :: services where
  "comparison_unreachable =
     \<lparr>recommend = (\<lambda>payload. Body ''success'' (Some [bamboo, plastic])),
      compare = (\<lambda>body. Rejected ''Failed to fetch'')\<rparr>"

text \<open>
  The record of the specification's formatting examples, with the numbers as JSON decodes
  them, and a record whose cost is \<open>1e21\<close>.
\<close>

definition sample :: recommendation where
  "sample =
     \<lparr>material_name = ''Kraft Paper'', material_type = ''Paper'',
      suitability_score = round_double (876 / 1000), predicted_cost_inr = Fin (1995 / 10),
      predicted_co2_kg = round_double (1234 / 100000), eco_score = Fin (1 / 2)\<rparr>"

definition costly :: recommendation where
  "costly =
     \<lparr>material_name = ''Titanium'', material_type = ''Metal'',
      suitability_score = Fin (1 / 2), predicted_cost_inr = Fin (10 ^ 21),
      predicted_co2_kg = Fin 2, eco_score = Fin (1 / 4)\<rparr>"

section \<open>Properties of the extrema selection\<close>

lemma js_lt_less: "js_lt a b = (a < b)"
  by (simp add: less_jsnum_def)

text \<open>
  The fold that \<open>reduce\<close> runs returns the element at the least position whose key is not
  above any other key: every earlier element has a strictly larger key.
\<close>

lemma foldl_first_min:
  fixes key :: "'a \<Rightarrow> jsnum"
  defines "f \<equiv> (\<lambda>a b. if js_lt (key b) (key a) then b else a)"
  shows "\<exists>i < length (a # xs). foldl f a xs = (a # xs) ! i
           \<and> (\<forall>j < i. key ((a # xs) ! i) < key ((a # xs) ! j))
           \<and> (\<forall>y \<in> set (a # xs). key ((a # xs) ! i) \<le> key y)"
proof (induction xs rule: rev_induct)
  case Nil
  show ?case by simp
next
  case (snoc x xs)
  then obtain i where i: "i < length (a # xs)" "foldl f a xs = (a # xs) ! i"
      and before: "\<forall>j < i. key ((a # xs) ! i) < key ((a # xs) ! j)"
      and least: "\<forall>y \<in> set (a # xs). key ((a # xs) ! i) \<le> key y"
    by blast
  let ?ys = "a # xs @ [x]"
  have nth_old: "\<And>j. j < length (a # xs) \<Longrightarrow> ?ys ! j = (a # xs) ! j"
    by (metis append_Cons nth_append)
  show ?case
  proof (cases "key x < key ((a # xs) ! i)")
    case True
    let ?n = "length (a # xs)"
    have res: "foldl f a (xs @ [x]) = ?ys ! ?n"
      using True i(2) by (simp add: f_def js_lt_less nth_append)
    have last: "?ys ! ?n = x"
      by (simp add: nth_append)
    have b: "\<forall>j < ?n. key x < key (?ys ! j)"
    proof (intro allI impI)
      fix j assume j: "j < ?n"
      then have "(a # xs) ! j \<in> set (a # xs)"
        using nth_mem by blast
      then have "key ((a # xs) ! i) \<le> key ((a # xs) ! j)"
        using least by blast
      then show "key x < key (?ys ! j)"
        using True nth_old[OF j] by simp
    qed
    have l: "\<forall>y \<in> set ?ys. key x \<le> key y"
    proof
      fix y assume "y \<in> set ?ys"
      then have "y = x \<or> y \<in> set (a # xs)" by auto
      then show "key x \<le> key y"
        using least True by (auto intro: less_imp_le order.strict_trans2)
    qed
    have "?n < length ?ys" by simp
    then show ?thesis
      using res last b l by (metis (no_types, lifting))
  next
    case False
    have res: "foldl f a (xs @ [x]) = ?ys ! i"
      using False i by (simp add: f_def js_lt_less nth_old del: nth_Cons_Suc)
    have same: "?ys ! i = (a # xs) ! i"
      using nth_old i(1) by blast
    have b: "\<forall>j < i. key (?ys ! i) < key (?ys ! j)"
      using before i(1) nth_old same by (metis (no_types, lifting) order.strict_trans)
    have l: "\<forall>y \<in> set ?ys. key (?ys ! i) \<le> key y"
    proof
      fix y assume "y \<in> set ?ys"
      then have "y = x \<or> y \<in> set (a # xs)" by auto
      then show "key (?ys ! i) \<le> key y"
        using least False same by (auto simp: not_less)
    qed
    have "i < length ?ys" using i(1) by simp
    then show ?thesis
      using res b l by (metis (no_types, lifting))
  qed
qed

lemma reduce_nonempty: "recs \<noteq> [] \<Longrightarrow> reduce f recs = Inr (foldl f (hd recs) (tl recs))"
  by (cases recs) simp_all


lemma running_min_foldl:
  "running_min key b (key b) xs = foldl (\<lambda>a b. if js_lt (key b) (key a) then b else a) b xs"
  by (induction xs arbitrary: b) (simp_all add: js_lt_less)


lemma foldl_find_min:
  fixes key :: "'a \<Rightarrow> jsnum"
  shows "List.find (\<lambda>x. key x = Min (key ` set (a # xs))) (a # xs)
           = Some (foldl (\<lambda>a b. if js_lt (key b) (key a) then b else a) a xs)"
proof -
  let ?ys = "a # xs"
  obtain i where i: "i < length ?ys"
      and res: "foldl (\<lambda>a b. if js_lt (key b) (key a) then b else a) a xs = ?ys ! i"
      and before: "\<forall>j < i. key (?ys ! i) < key (?ys ! j)"
      and least: "\<forall>y \<in> set ?ys. key (?ys ! i) \<le> key y"
    using foldl_first_min[where key = key and a = a and xs = xs] by blast
  have mem: "?ys ! i \<in> set ?ys"
    using i nth_mem by blast
  have "Min (key ` set ?ys) = key (?ys ! i)"
  proof (rule Min_eqI)
    show "finite (key ` set ?ys)" by simp
    show "\<And>y. y \<in> key ` set ?ys \<Longrightarrow> key (?ys ! i) \<le> y"
      using least by blast
    show "key (?ys ! i) \<in> key ` set ?ys"
      using mem by blast
  qed
  then have M: "Min (key ` set ?ys) = key (?ys ! i)" .
  have nb: "\<forall>j<i. key (?ys ! j) \<noteq> key (?ys ! i)"
    using before by (metis less_irrefl)
  have "\<exists>k<length ?ys. key (?ys ! k) = key (?ys ! i)
        \<and> ?ys ! i = ?ys ! k \<and> (\<forall>j<k. \<not> key (?ys ! j) = key (?ys ! i))"
    using i nb by blast
  then show ?thesis
    unfolding res M find_Some_iff .
qed

text \<open>What \<open>reduce\<close> returns for each key, on a non-empty array.\<close>


lemma reduce_min_props:
  fixes key :: "'a \<Rightarrow> jsnum"
  assumes "recs \<noteq> []"
  shows "\<exists>m \<in> set recs.
           reduce (\<lambda>a b. if js_lt (key b) (key a) then b else a) recs = Inr m
         \<and> (\<forall>r \<in> set recs. js_le (key m) (key r))
         \<and> spec_linear_pass key recs = Some m
         \<and> spec_first_minimal key recs = Some m"
proof -
  obtain a xs where recs: "recs = a # xs"
    using assms by (cases recs) auto
  let ?f = "\<lambda>a b. if js_lt (key b) (key a) then b else a"
  let ?m = "foldl ?f a xs"
  obtain i where i: "i < length (a # xs)" and res: "?m = (a # xs) ! i"
      and least: "\<forall>y \<in> set (a # xs). key ((a # xs) ! i) \<le> key y"
    using foldl_first_min[where key = key and a = a and xs = xs] by blast
  have "?m \<in> set recs"
    unfolding res recs using i nth_mem by blast
  moreover have "reduce ?f recs = Inr ?m"
    by (simp add: recs)
  moreover have "\<forall>r \<in> set recs. js_le (key ?m) (key r)"
    using least unfolding res recs less_eq_jsnum_def by blast
  moreover have "spec_linear_pass key recs = Some ?m"
    by (simp add: spec_linear_pass_def recs running_min_foldl)
  moreover have "spec_first_minimal key recs = Some ?m"
    unfolding spec_first_minimal_def recs by (rule foldl_find_min)
  ultimately show ?thesis by blast
qed

section \<open>Properties of the rendering loops\<close>

text \<open>The loops append one row, and one card, for each record, numbered from the start index.\<close>

lemma append_rows_eq:
  "append_rows k rs tb = tb @ map (\<lambda>(r, i). make_row r i) (zip rs [k ..< k + length rs])"
proof (induction rs arbitrary: k tb)
  case Nil
  show ?case by simp
next
  case (Cons r rs)
  have "[k ..< k + length (r # rs)] = k # [Suc k ..< Suc k + length rs]"
    using upt_conv_Cons[of k "k + length (r # rs)"] by simp
  then show ?case
    using Cons.IH[of "Suc k" "tb @ [make_row r k]"] by simp
qed


lemma append_cards_eq:
  "append_cards k rs g = g @ map (\<lambda>(r, i). make_card r i) (zip rs [k ..< k + length rs])"
proof (induction rs arbitrary: k g)
  case Nil
  show ?case by simp
next
  case (Cons r rs)
  have "[k ..< k + length (r # rs)] = k # [Suc k ..< Suc k + length rs]"
    using upt_conv_Cons[of k "k + length (r # rs)"] by simp
  then show ?case
    using Cons.IH[of "Suc k" "g @ [make_card r k]"] by simp
qed


lemma buildTable_rows:
  "length (summaryTbody (buildTable recs p)) = length recs"
  "i < length recs \<Longrightarrow> summaryTbody (buildTable recs p) ! i = make_row (recs ! i) i"
  by (simp_all add: buildTable_def append_rows_eq)

section \<open>Decimal digits\<close>

text \<open>Reading the decimal numeral of a natural number gives the number back.\<close>

lemma digit_val_digit_char: "0 \<le> d \<Longrightarrow> d < 10 \<Longrightarrow> digit_val (digit_char d) = d"
proof -
  assume "0 \<le> d" "d < 10"
  then have "d = 0 \<or> d = 1 \<or> d = 2 \<or> d = 3 \<or> d = 4 \<or> d = 5 \<or> d = 6 \<or> d = 7 \<or> d = 8 \<or> d = 9"
    by presburger
  then show ?thesis
    by (auto simp: digit_val_def digit_char_def)
qed


lemma digits_value_snoc: "digits_value (ds @ [c]) = 10 * digits_value ds + digit_val c"
  by (simp add: digits_value_def)


lemma digits_value_digits_of: "0 \<le> n \<Longrightarrow> digits_value (digits_of n) = n"
proof (induction n rule: digits_of.induct)
  case (1 n)
  show ?case
  proof (cases "n < 10")
    case True
    then have "digits_of n = [digit_char n]" by (subst digits_of.simps) simp
    then show ?thesis
      using True "1.prems" digit_val_digit_char[of n] by (simp add: digits_value_def)
  next
    case False
    then have eq: "digits_of n = digits_of (n div 10) @ [digit_char (n mod 10)]"
      by (subst digits_of.simps) simp
    have "digits_value (digits_of (n div 10)) = n div 10"
      using "1.IH" False "1.prems" by simp
    then show ?thesis
      unfolding eq digits_value_snoc using digit_val_digit_char[of "n mod 10"] by simp
  qed
qed

section \<open>Properties of runRecommendation\<close>

lemma form_kept [simp]:
  "categorySelect_value (resetResults (hideAlert p)) = categorySelect_value p"
  "weightInput_value (resetResults (hideAlert p)) = weightInput_value p"
  "fragilitySelect_value (resetResults (hideAlert p)) = fragilitySelect_value p"
  "budgetInput_value (resetResults (hideAlert p)) = budgetInput_value p"
  "currentMaterialSelect_value (resetResults (hideAlert p)) = currentMaterialSelect_value p"
  "topNSelect_value (resetResults (hideAlert p)) = topNSelect_value p"
  by (simp_all add: resetResults_def hideAlert_def)

lemma runRecommendation_no_category:
  assumes "trim (categorySelect_value p) = []"
  shows "runRecommendation net p =
           (showAlert ''warning'' ''Please select a product category.''
              (resetResults (hideAlert p)), [])"
  using assms by (simp add: runRecommendation_def Let_def)

lemma runRecommendation_bad_weight:
  assumes "trim (categorySelect_value p) \<noteq> []"
    and "parseFloat (weightInput_value p) = None
         \<or> (\<exists>w. parseFloat (weightInput_value p) = Some w \<and> js_le w (Fin 0))"
  shows "runRecommendation net p =
           (showAlert ''warning'' ''Please enter a valid product weight.''
              (resetResults (hideAlert p)), [])"
  using assms by (auto simp: runRecommendation_def Let_def)

lemma runRecommendation_valid:
  assumes "trim (categorySelect_value p) \<noteq> []"
    and "parseFloat (weightInput_value p) = Some w"
    and "\<not> js_le w (Fin 0)"
  defines "payload \<equiv>
      \<lparr>category = trim (categorySelect_value p), weight = w,
       top_n = choose_topN (parseInt (topNSelect_value p)),
       fragility_override = fragilitySelect_value p,
       budget_limit = (if trim (budgetInput_value p) \<noteq> []
                       then Budget (parseFloat (trim (budgetInput_value p))) else NoBudget)\<rparr>"
    and "body \<equiv>
      \<lparr>cmp_category = trim (categorySelect_value p), cmp_weight = w,
       cmp_current_material = currentMaterialSelect_value p\<rparr>"
    and "p1 \<equiv> setLoading True (resetResults (hideAlert p))"
  shows "runRecommendation net p =
    (case recommend net payload of
       Rejected msg \<Rightarrow> (setLoading False (catch_error msg p1), [PostRecommend payload])
     | Body status recs \<Rightarrow>
         if status \<noteq> ''success''
         then (setLoading False (catch_error ''Recommendation failed'' p1), [PostRecommend payload])
         else
           (case displayResults recs p1 of
              Inl (e, q) \<Rightarrow> (setLoading False (catch_error (message e) q), [PostRecommend payload])
            | Inr q \<Rightarrow>
                if currentMaterialSelect_value p \<noteq> []
                then (setLoading False (compare_step net body q),
                      [PostRecommend payload, PostCompare body])
                else (setLoading False q, [PostRecommend payload])))"
  using assms(1-3) unfolding payload_def body_def p1_def
  by (simp add: runRecommendation_def Let_def split: response.splits sum.splits prod.splits)

lemma runRecommendation_sent:
  assumes "trim (categorySelect_value p) \<noteq> []"
    and "parseFloat (weightInput_value p) = Some w"
    and "\<not> js_le w (Fin 0)"
  shows "\<exists>rest. snd (runRecommendation net p) =
      PostRecommend
        \<lparr>category = trim (categorySelect_value p), weight = w,
         top_n = choose_topN (parseInt (topNSelect_value p)),
         fragility_override = fragilitySelect_value p,
         budget_limit = (if trim (budgetInput_value p) \<noteq> []
                         then Budget (parseFloat (trim (budgetInput_value p))) else NoBudget)\<rparr> # rest
      \<and> (rest = [] \<or> (\<exists>b. rest = [PostCompare b]))"
  unfolding runRecommendation_valid[OF assms]
  by (simp split: response.splits sum.splits prod.splits)

lemma not_js_le: "(\<not> js_le w (Fin 0)) = js_lt (Fin 0) w"
  by (cases w) auto

lemma parse_examples:
  "trim ''Electronics'' = ''Electronics''"
  "trim [] = []"
  "parseFloat ''2.5'' = Some (Fin (5 / 2))"
  "parseFloat ''0'' = Some (Fin 0)"
  "parseInt ''10'' = Some (Fin 10)"
  by code_simp+

lemma parse_seven: "parseInt ''7'' = Some (Fin 7)"
  by code_simp

lemma filled_form_fields:
  "categorySelect_value filled_form = ''Electronics''"
  "weightInput_value filled_form = ''2.5''"
  "topNSelect_value filled_form = ''10''"
  "fragilitySelect_value filled_form = ''auto''"
  "budgetInput_value filled_form = []"
  "currentMaterialSelect_value filled_form = ''Plastic''"
  "alertBox filled_form = \<lparr>textContent = [], display = ''none'', className = ''alert-box''\<rparr>"
  by (simp_all add: filled_form_def blank_page_def)

lemma filled_form_sent:
  "\<exists>rest. snd (runRecommendation net filled_form) =
      PostRecommend \<lparr>category = ''Electronics'', weight = Fin (5 / 2), top_n = Fin 10,
                     fragility_override = ''auto'', budget_limit = NoBudget\<rparr> # rest"
proof -
  have v: "trim (categorySelect_value filled_form) \<noteq> []"
      "parseFloat (weightInput_value filled_form) = Some (Fin (5 / 2))"
      "\<not> js_le (Fin (5 / 2)) (Fin 0)"
    by (simp_all add: filled_form_fields parse_examples)
  show ?thesis
    using runRecommendation_sent[OF v, of net]
    by (auto simp: filled_form_fields parse_examples choose_topN_def)
qed

lemma displayResults_keeps_alert:
  assumes "recs \<noteq> []"
  shows "\<exists>q. displayResults (Some recs) p = Inr q \<and> alertBox q = alertBox p
           \<and> savingsSection_display q = savingsSection_display p"
proof -
  obtain a xs where recs: "recs = a # xs"
    using assms by (cases recs) auto
  show ?thesis
    by (simp add: recs displayResults_def lowestCost_def lowestCO2_def at_index_def
        renderChart_def buildTable_def Let_def)
qed

lemma filled_form_comparison_refused:
  "snd (runRecommendation comparison_refused filled_form) =
     [PostRecommend \<lparr>category = ''Electronics'', weight = Fin (5 / 2), top_n = Fin 10,
                     fragility_override = ''auto'', budget_limit = NoBudget\<rparr>,
      PostCompare \<lparr>cmp_category = ''Electronics'', cmp_weight = Fin (5 / 2),
                   cmp_current_material = ''Plastic''\<rparr>]
   \<and> alertBox (fst (runRecommendation comparison_refused filled_form)) =
       \<lparr>textContent = [], display = ''none'', className = ''alert-box''\<rparr>
   \<and> savingsSection_display (fst (runRecommendation comparison_refused filled_form)) = ''none''"
proof -
  have v: "trim (categorySelect_value filled_form) \<noteq> []"
      "parseFloat (weightInput_value filled_form) = Some (Fin (5 / 2))"
      "\<not> js_le (Fin (5 / 2)) (Fin 0)"
    by (simp_all add: filled_form_fields parse_examples)
  let ?p1 = "setLoading True (resetResults (hideAlert filled_form))"
  obtain q where q: "displayResults (Some [bamboo, plastic]) ?p1 = Inr q"
      "alertBox q = alertBox ?p1" "savingsSection_display q = savingsSection_display ?p1"
    using displayResults_keeps_alert[of "[bamboo, plastic]" ?p1] by auto
  have p1: "alertBox ?p1 = \<lparr>textContent = [], display = ''none'', className = ''alert-box''\<rparr>"
      "savingsSection_display ?p1 = ''none''"
    by (simp_all add: setLoading_def resetResults_def hideAlert_def filled_form_fields)
  show ?thesis
    unfolding runRecommendation_valid[OF v]
    using q p1
    by (simp add: comparison_refused_def filled_form_fields parse_examples choose_topN_def
        compare_step_def setLoading_def)
qed

section \<open>Properties of the failure handlers\<close>

text \<open>
  The handlers of the category list and of the material list throw on a status that is not
  \<open>success\<close>, and a rejected request reaches the same \<open>catch\<close>: on every page, each
  shows its warning and leaves the select alone.
\<close>

lemma loaders_report_failure:
  assumes "upstream_failure res"
  shows "loadCategories res p = showAlert ''warning'' ''Unable to load product categories.'' p"
    and "loadMaterials res p = showAlert ''warning'' ''Unable to load materials list.'' p"
  using assms
  by (simp_all add: upstream_failure_def loadCategories_def loadMaterials_def
      split: response.splits)

text \<open>
  With a form that passes validation: the handler of the recommendation response throws
  on a status that is not \<open>success\<close>, and this and a rejected request show an alert of type
  \<open>error\<close> with the message of the error, no second request being sent; a rejected
  comparison request shows such an alert too. The handler of the comparison response has
  no branch for a status that is not \<open>success\<close>: the page is left as displayResults made
  it.
\<close>

lemma failures_after_valid_form:
  assumes "trim (categorySelect_value p) \<noteq> []"
    and "parseFloat (weightInput_value p) = Some w"
    and "js_lt (Fin 0) w"
  defines "payload \<equiv>
      \<lparr>category = trim (categorySelect_value p), weight = w,
       top_n = choose_topN (parseInt (topNSelect_value p)),
       fragility_override = fragilitySelect_value p,
       budget_limit = (if trim (budgetInput_value p) \<noteq> []
                       then Budget (parseFloat (trim (budgetInput_value p))) else NoBudget)\<rparr>"
    and "body \<equiv>
      \<lparr>cmp_category = trim (categorySelect_value p), cmp_weight = w,
       cmp_current_material = currentMaterialSelect_value p\<rparr>"
    and "p1 \<equiv> setLoading True (resetResults (hideAlert p))"
  shows
    "(upstream_failure (recommend net payload) \<longrightarrow>
        snd (runRecommendation net p) = [PostRecommend payload]
        \<and> alertBox (fst (runRecommendation net p)) =
            \<lparr>textContent =
               (case recommend net payload of
                  Rejected msg \<Rightarrow> if msg = [] then ''Something went wrong.'' else msg
                | Body status recs \<Rightarrow> ''Recommendation failed''),
             display = ''block'', className = ''alert-box error''\<rparr>)
   \<and> (\<forall>recs q msg.
        recommend net payload = Body ''success'' recs \<and> displayResults recs p1 = Inr q
        \<and> currentMaterialSelect_value p \<noteq> [] \<and> compare net body = Rejected msg \<longrightarrow>
        alertBox (fst (runRecommendation net p)) =
            \<lparr>textContent = (if msg = [] then ''Something went wrong.'' else msg),
             display = ''block'', className = ''alert-box error''\<rparr>)
   \<and> (\<forall>recs q status cmp.
        recommend net payload = Body ''success'' recs \<and> displayResults recs p1 = Inr q
        \<and> currentMaterialSelect_value p \<noteq> [] \<and> compare net body = Body status cmp
        \<and> status \<noteq> ''success'' \<longrightarrow>
        fst (runRecommendation net p) = setLoading False q)"
proof -
  have w: "\<not> js_le w (Fin 0)"
    using assms(3) not_js_le by blast
  note run = runRecommendation_valid[OF assms(1,2) w, of net, folded payload_def body_def p1_def]
  have rec: "upstream_failure (recommend net payload) \<longrightarrow>
        snd (runRecommendation net p) = [PostRecommend payload]
        \<and> alertBox (fst (runRecommendation net p)) =
            \<lparr>textContent =
               (case recommend net payload of
                  Rejected msg \<Rightarrow> if msg = [] then ''Something went wrong.'' else msg
                | Body status recs \<Rightarrow> ''Recommendation failed''),
             display = ''block'', className = ''alert-box error''\<rparr>"
    unfolding run
    by (simp add: upstream_failure_def catch_error_def showAlert_def setLoading_def
        split: response.splits)
  have cmp_rej: "\<forall>recs q msg.
        recommend net payload = Body ''success'' recs \<and> displayResults recs p1 = Inr q
        \<and> currentMaterialSelect_value p \<noteq> [] \<and> compare net body = Rejected msg \<longrightarrow>
        alertBox (fst (runRecommendation net p)) =
            \<lparr>textContent = (if msg = [] then ''Something went wrong.'' else msg),
             display = ''block'', className = ''alert-box error''\<rparr>"
    unfolding run
    by (simp add: compare_step_def catch_error_def showAlert_def setLoading_def)
  have cmp_status: "\<forall>recs q status cmp.
        recommend net payload = Body ''success'' recs \<and> displayResults recs p1 = Inr q
        \<and> currentMaterialSelect_value p \<noteq> [] \<and> compare net body = Body status cmp
        \<and> status \<noteq> ''success'' \<longrightarrow>
        fst (runRecommendation net p) = setLoading False q"
    unfolding run
    by (simp add: compare_step_def)
  show ?thesis
    using rec cmp_rej cmp_status by blast
qed

text \<open>
  On the blank page, on which the two lists are loaded, a status that is not \<open>success\<close>
  shows the warning; with the form filled in, an unreachable recommendation service and
  an unreachable comparison service each show the alert of the \<open>catch\<close>.
\<close>

lemma sibling_failures_are_shown:
  "alertBox (loadCategories (Body ''error'' []) blank_page) =
       \<lparr>textContent = ''Unable to load product categories.'',
        display = ''block'', className = ''alert-box warning''\<rparr>
   \<and> alertBox (loadMaterials (Rejected ''Failed to fetch'') blank_page) =
       \<lparr>textContent = ''Unable to load materials list.'',
        display = ''block'', className = ''alert-box warning''\<rparr>
   \<and> snd (runRecommendation recommend_unreachable filled_form) =
       [PostRecommend \<lparr>category = ''Electronics'', weight = Fin (5 / 2), top_n = Fin 10,
                       fragility_override = ''auto'', budget_limit = NoBudget\<rparr>]
   \<and> alertBox (fst (runRecommendation recommend_unreachable filled_form)) =
       \<lparr>textContent = ''Failed to fetch'', display = ''block'', className = ''alert-box error''\<rparr>
   \<and> alertBox (fst (runRecommendation comparison_unreachable filled_form)) =
       \<lparr>textContent = ''Failed to fetch'', display = ''block'', className = ''alert-box error''\<rparr>"
proof -
  have v: "trim (categorySelect_value filled_form) \<noteq> []"
      "parseFloat (weightInput_value filled_form) = Some (Fin (5 / 2))"
      "js_lt (Fin 0) (Fin (5 / 2))"
    by (simp_all add: filled_form_fields parse_examples)
  have lists:
    "alertBox (loadCategories (Body ''error'' []) blank_page) =
       \<lparr>textContent = ''Unable to load product categories.'',
        display = ''block'', className = ''alert-box warning''\<rparr>"
    "alertBox (loadMaterials (Rejected ''Failed to fetch'') blank_page) =
       \<lparr>textContent = ''Unable to load materials list.'',
        display = ''block'', className = ''alert-box warning''\<rparr>"
    by (simp_all add: loaders_report_failure upstream_failure_def showAlert_def)
  have recommend_down:
    "snd (runRecommendation recommend_unreachable filled_form) =
       [PostRecommend \<lparr>category = ''Electronics'', weight = Fin (5 / 2), top_n = Fin 10,
                       fragility_override = ''auto'', budget_limit = NoBudget\<rparr>]
   \<and> alertBox (fst (runRecommendation recommend_unreachable filled_form)) =
       \<lparr>textContent = ''Failed to fetch'', display = ''block'', className = ''alert-box error''\<rparr>"
    using failures_after_valid_form[OF v, of recommend_unreachable]
    by (simp add: filled_form_fields parse_examples choose_topN_def recommend_unreachable_def
        upstream_failure_def)
  obtain q where q: "displayResults (Some [bamboo, plastic])
              (setLoading True (resetResults (hideAlert filled_form))) = Inr q"
    using displayResults_keeps_alert[of "[bamboo, plastic]"] by auto
  have cmp_rejected: "alertBox (fst (runRecommendation comparison_unreachable filled_form)) =
       \<lparr>textContent = ''Failed to fetch'', display = ''block'', className = ''alert-box error''\<rparr>"
    using failures_after_valid_form[OF v, of comparison_unreachable] q
    by (simp add: filled_form_fields comparison_unreachable_def)
  show ?thesis
    using lists recommend_down cmp_rejected by blast
qed

section \<open>Properties of toFixed\<close>

lemma is_digit_digit_char: "0 \<le> d \<Longrightarrow> d < 10 \<Longrightarrow> is_digit (digit_char d)"
proof -
  assume "0 \<le> d" "d < 10"
  then have "d = 0 \<or> d = 1 \<or> d = 2 \<or> d = 3 \<or> d = 4 \<or> d = 5 \<or> d = 6 \<or> d = 7 \<or> d = 8 \<or> d = 9"
    by presburger
  then show ?thesis
    by (auto simp: is_digit_def digit_char_def)
qed

lemma digits_of_digits: "0 \<le> n \<Longrightarrow> list_all is_digit (digits_of n) \<and> digits_of n \<noteq> []"
proof (induction n rule: digits_of.induct)
  case (1 n)
  show ?case
  proof (cases "n < 10")
    case True
    then have "digits_of n = [digit_char n]" by (subst digits_of.simps) simp
    then show ?thesis
      using True "1.prems" is_digit_digit_char[of n] by simp
  next
    case False
    then have eq: "digits_of n = digits_of (n div 10) @ [digit_char (n mod 10)]"
      by (subst digits_of.simps) simp
    have "list_all is_digit (digits_of (n div 10))"
      using "1.IH" False "1.prems" by simp
    then show ?thesis
      unfolding eq using is_digit_digit_char[of "n mod 10"] by simp
  qed
qed

lemma digits_value_append:
  "digits_value (a @ b) = digits_value a * 10 ^ length b + digits_value b"
proof (induction b rule: rev_induct)
  case Nil
  show ?case by (simp add: digits_value_def)
next
  case (snoc c b)
  have "digits_value (a @ b @ [c]) = 10 * digits_value (a @ b) + digit_val c"
    using digits_value_snoc[of "a @ b" c] by simp
  then show ?case
    using snoc digits_value_snoc[of b c] by (simp add: algebra_simps)
qed

lemma digits_value_zeros: "digits_value (replicate z CHR ''0'') = 0"
  by (induction z) (simp_all add: digits_value_def digit_val_def foldl_conv_fold replicate_append_same [symmetric] del: replicate_Suc)

lemma not_digit_point: "\<not> is_digit CHR ''.''" and not_digit_minus: "\<not> is_digit CHR ''-''"
  by (simp_all add: is_digit_def)

text \<open>A sign, digits, a point and digits form a fixed-point text, with the expected value.\<close>

lemma fixed_point_parts:
  assumes "ip \<noteq> []" and "list_all is_digit ip" and "list_all is_digit fp"
    and "sg = [] \<or> sg = ''-''"
  shows "fixed_point (length fp) (sg @ ip @ CHR ''.'' # fp)"
    and "fixed_value (sg @ ip @ CHR ''.'' # fp) =
           (if sg = [] then 1 else - 1) * (of_int (digits_value (ip @ fp)) / 10 ^ length fp)"
proof -
  have dig: "\<And>x. x \<in> set ip \<Longrightarrow> is_digit x"
    using assms(2) by (simp add: list_all_iff)
  have tw: "takeWhile is_digit (ip @ CHR ''.'' # fp) = ip"
    using dig not_digit_point by simp
  have dw: "dropWhile is_digit (ip @ CHR ''.'' # fp) = CHR ''.'' # fp"
    using dig not_digit_point by simp
  have hd_ip: "hd (ip @ CHR ''.'' # fp) \<noteq> CHR ''-''"
    using assms(1) dig[of "hd ip"] not_digit_minus by (cases ip) auto
  have plain: "fixed_point (length fp) (ip @ CHR ''.'' # fp)"
      "fixed_value (ip @ CHR ''.'' # fp) = of_int (digits_value (ip @ fp)) / 10 ^ length fp"
    using hd_ip assms(1,3)
    by (simp_all add: fixed_point_def fixed_value_def Let_def tw dw not_digit_point)
  have minus: "fixed_point (length fp) (CHR ''-'' # ip @ CHR ''.'' # fp)"
      "fixed_value (CHR ''-'' # ip @ CHR ''.'' # fp)
         = - (of_int (digits_value (ip @ fp)) / 10 ^ length fp)"
    using assms(1,3)
    by (simp_all add: fixed_point_def fixed_value_def Let_def tw dw not_digit_point)
  show "fixed_point (length fp) (sg @ ip @ CHR ''.'' # fp)"
    using assms(4) plain(1) minus(1) by auto
  show "fixed_value (sg @ ip @ CHR ''.'' # fp) =
           (if sg = [] then 1 else - 1) * (of_int (digits_value (ip @ fp)) / 10 ^ length fp)"
    using assms(4) plain(2) minus(2) by auto
qed

text \<open>
  Below \<open>10^21\<close> in magnitude, \<open>toFixed\<close> with \<open>f > 0\<close> prints a fixed-point text with \<open>f\<close>
  decimal places, whose value is within half a unit of the last place of the number.
\<close>

lemma toFixed_fixed_point:
  assumes "\<bar>v\<bar> < 10 ^ 21" and "0 < f"
  shows "fixed_point f (toFixed (Some (Fin v)) f)
       \<and> \<bar>fixed_value (toFixed (Some (Fin v)) f) - v\<bar> \<le> 1 / (2 * 10 ^ f)"
proof -
  define x where "x = \<bar>v\<bar>"
  define sg where "sg = (if v < 0 then ''-'' else [])"
  define n where "n = \<lfloor>x * 10 ^ f + 1 / 2\<rfloor>"
  define m0 where "m0 = digits_of n"
  define m where "m = (if length m0 \<le> f then replicate (f + 1 - length m0) CHR ''0'' @ m0 else m0)"
  define k where "k = length m"
  have x: "x = (if v < 0 then - v else v)" "\<not> 10 ^ 21 \<le> x" "0 \<le> x"
    using assms(1) by (auto simp: x_def)
  have res: "toFixed (Some (Fin v)) f = sg @ take (k - f) m @ CHR ''.'' # drop (k - f) m"
    using assms(2) x(2) unfolding x(1)
    by (simp add: toFixed.simps Let_def sg_def k_def m_def m0_def n_def x(1))
  have n0: "0 \<le> n"
    using x(3) by (simp add: n_def)
  have m0: "list_all is_digit m0" "m0 \<noteq> []"
    using digits_of_digits[OF n0] by (simp_all add: m0_def)
  have zero: "is_digit CHR ''0''"
    by (simp add: is_digit_def)
  have m: "list_all is_digit m" "f < k"
    using m0 zero by (auto simp: m_def k_def list_all_iff)
  have val: "digits_value m = n"
    using digits_value_digits_of[OF n0] digits_value_append[of "replicate (f + 1 - length m0) CHR ''0''" m0]
    by (simp add: m_def m0_def digits_value_zeros)
  let ?ip = "take (k - f) m" and ?fp = "drop (k - f) m"
  have parts: "?ip \<noteq> []" "list_all is_digit ?ip" "list_all is_digit ?fp" "length ?fp = f"
    using m by (auto simp: k_def list_all_iff dest: in_set_takeD in_set_dropD)
  have sgs: "sg = [] \<or> sg = ''-''"
    by (simp add: sg_def)
  have shape: "fixed_point f (sg @ ?ip @ CHR ''.'' # ?fp)"
    using fixed_point_parts(1)[OF parts(1,2,3) sgs] parts(4) by simp
  have fv: "fixed_value (sg @ ?ip @ CHR ''.'' # ?fp) =
      (if sg = [] then 1 else - 1) * (of_int n / 10 ^ f)"
    using fixed_point_parts(2)[OF parts(1,2,3) sgs] parts(4) val by simp
  have lo: "of_int n \<le> x * 10 ^ f + 1 / 2" and hi: "x * 10 ^ f + 1 / 2 < of_int n + 1"
    unfolding n_def by linarith+
  have pos: "(0::rat) < 10 ^ f" by simp
  have half: "\<bar>of_int n - x * 10 ^ f\<bar> \<le> 1 / 2"
    using lo hi by linarith
  have "\<bar>of_int n - x * 10 ^ f\<bar> / 10 ^ f \<le> (1 / 2) / 10 ^ f"
    by (rule divide_right_mono[OF half]) simp
  moreover have "of_int n / 10 ^ f - x = (of_int n - x * 10 ^ f) / 10 ^ f"
    using pos by (simp add: diff_divide_distrib)
  moreover have "\<bar>(of_int n - x * 10 ^ f) / 10 ^ f\<bar> = \<bar>of_int n - x * 10 ^ f\<bar> / 10 ^ f"
    by simp
  moreover have "(1 / 2) / (10::rat) ^ f = 1 / (2 * 10 ^ f)"
    by simp
  ultimately have near: "\<bar>of_int n / 10 ^ f - x\<bar> \<le> 1 / (2 * 10 ^ f)"
    by (simp only:)
  have "\<bar>(if sg = [] then 1 else - 1) * (of_int n / 10 ^ f) - v\<bar> = \<bar>of_int n / 10 ^ f - x\<bar>"
    by (auto simp: sg_def x_def)
  then show ?thesis
    using shape fv near unfolding res by simp
qed
lemma bits_nonneg: "0 \<le> bits n"
proof (induction n rule: bits.induct)
  case (1 n)
  show ?case
  proof (cases "n \<le> 0")
    case True
    then show ?thesis by (subst bits.simps) simp
  next
    case False
    then show ?thesis
      using "1.IH" by (subst bits.simps) simp
  qed
qed

lemma bits_le: "n < 2 ^ k \<Longrightarrow> bits n \<le> int k"
proof (induction k arbitrary: n)
  case 0
  then have "n \<le> 0" by simp
  then show ?case by (subst bits.simps) simp
next
  case (Suc k)
  show ?case
  proof (cases "n \<le> 0")
    case True
    then show ?thesis by (subst bits.simps) simp
  next
    case False
    have "n div 2 < 2 ^ k"
      using Suc.prems by simp
    then have "bits (n div 2) \<le> int k"
      by (rule Suc.IH)
    then show ?thesis
      using False by (subst bits.simps) simp
  qed
qed

lemma floor_log2_le_6: "x \<le> 100 \<Longrightarrow> floor_log2 x \<le> 6"
proof (cases "1 \<le> x")
  case True
  assume "x \<le> 100"
  then have "\<lfloor>x\<rfloor> \<le> 100"
    by (simp add: floor_le_iff)
  then have "\<lfloor>x\<rfloor> < 2 ^ 7" by simp
  then have "bits \<lfloor>x\<rfloor> \<le> int 7"
    by (rule bits_le)
  then show ?thesis
    using True by (simp add: floor_log2_def)
next
  case False
  then show ?thesis
    using bits_nonneg[of "\<lceil>1 / x\<rceil> - 1"] by (simp add: floor_log2_def)
qed

lemma round_half_even_bounds:
  assumes "0 \<le> y"
  shows "0 \<le> round_half_even y" and "of_int (round_half_even y) \<le> y + 1"
proof -
  have f: "0 \<le> \<lfloor>y\<rfloor>" "of_int \<lfloor>y\<rfloor> \<le> y"
    using assms by simp_all
  have cases: "round_half_even y = \<lfloor>y\<rfloor> \<or> round_half_even y = \<lfloor>y\<rfloor> + 1"
    by (simp add: round_half_even_def Let_def)
  show "0 \<le> round_half_even y"
    using f(1) cases by auto
  show "of_int (round_half_even y) \<le> y + 1"
  proof (rule disjE[OF cases])
    assume "round_half_even y = \<lfloor>y\<rfloor>"
    then show ?thesis
      using of_int_floor_le[of y] by linarith
  next
    assume "round_half_even y = \<lfloor>y\<rfloor> + 1"
    then show ?thesis
      using of_int_floor_le[of y] by simp
  qed
qed

lemma pow2_small: "k \<le> 0 \<Longrightarrow> 0 < pow2 k \<and> pow2 k \<le> 1"
proof -
  assume k: "k \<le> 0"
  have "(1::rat) \<le> 2 ^ nat (- k)"
    by (rule one_le_power) simp
  then show ?thesis
    using k by (auto simp: pow2_def divide_le_eq_1)
qed

text \<open>A number from 0 to 100 rounds to a finite double, of at most 101.\<close>

lemma round_double_small:
  assumes "0 \<le> x" and "x \<le> 100"
  shows "\<exists>y. round_double x = Fin y \<and> 0 \<le> y \<and> y \<le> 101"
proof (cases "x = 0")
  case True
  then show ?thesis by (simp add: round_double_def)
next
  case False
  define e where "e = max (floor_log2 x) (- 1022)"
  define q where "q = pow2 (e - 52)"
  define n where "n = round_half_even (x / q)"
  have ax: "\<bar>x\<bar> = x" using assms(1) by simp
  have e: "e \<le> 6"
    using floor_log2_le_6[OF assms(2)] by (simp add: e_def)
  then have q: "0 < q" "q \<le> 1"
    using pow2_small[of "e - 52"] by (simp_all add: q_def)
  have xq: "0 \<le> x / q"
    using assms(1) q(1) by simp
  have n: "0 \<le> n" "of_int n \<le> x / q + 1"
    using round_half_even_bounds[OF xq] by (simp_all add: n_def)
  have "of_int n * q \<le> (x / q + 1) * q"
    using n(2) q(1) by (simp add: mult_right_mono)
  also have "\<dots> = x + q"
    using q(1) by (simp add: distrib_right)
  finally have up: "of_int n * q \<le> 101"
    using assms(2) q(2) by simp
  have low: "0 \<le> of_int n * q"
    using n(1) q(1) by simp
  have "round_double x = Fin (of_int n * q)"
    unfolding round_double_def Let_def ax e_def[symmetric] q_def[symmetric] n_def[symmetric]
    using False assms(1) e by simp
  then show ?thesis
    using up low by simp
qed

lemma percent_fixed_point:
  assumes "0 \<le> s" and "s \<le> 1"
  shows "\<exists>y. js_mul (Fin s) (Fin 100) = Some (Fin y)
           \<and> fixed_point 1 (percent (Fin s))
           \<and> \<bar>fixed_value (percent (Fin s)) - y\<bar> \<le> 1 / 20"
proof -
  have "0 \<le> s * 100" "s * 100 \<le> 100"
    using assms by simp_all
  then obtain y where y: "round_double (s * 100) = Fin y" "0 \<le> y" "y \<le> 101"
    using round_double_small by blast
  have "\<bar>y\<bar> < 10 ^ 21"
    using y(2,3) by simp
  then have "fixed_point 1 (toFixed (Some (Fin y)) 1)
      \<and> \<bar>fixed_value (toFixed (Some (Fin y)) 1) - y\<bar> \<le> 1 / (2 * 10 ^ 1)"
    by (rule toFixed_fixed_point) simp
  then show ?thesis
    using y(1) by (simp add: percent_def)
qed

lemma append_cards_nth:
  "i < length recs \<Longrightarrow> append_cards 0 recs [] ! i = make_card (recs ! i) i"
  by (simp add: append_cards_eq)

lemma sample_fields:
  "suitability_score sample = Fin (7890306547153109 / 9007199254740992)"
  "predicted_cost_inr sample = Fin (1995 / 10)"
  "predicted_co2_kg sample = Fin (3556762841712123 / 288230376151711744)"
  "eco_score sample = Fin (1 / 2)"
  by code_simp+

lemma sample_row:
  "make_row sample 0 =
     \<lparr>row_name = ''Kraft Paper'', row_type = ''Paper'', row_suitability = ''87.6%'',
      row_cost = ''199.50'', row_co2 = ''0.0123 kg'', row_eco = ''0.500'', row_rank = ''1''\<rparr>"
  by code_simp

lemma costly_row:
  "round_double (10 ^ 21) = Fin (10 ^ 21)"
  "row_cost (make_row costly 0) = ''1e+21''"
  "fixed_point 2 ''1e+21'' = False"
  by code_simp+

section \<open>The claims\<close>

text \<open>
  C1. For every non-empty list of recommendation records, the lowest-cost selection has a
  cost that is at most the cost of every record of the list, and the lowest-emissions
  selection has emissions that are at most the emissions of every record of the list.
\<close>

theorem lowest_selections_are_minimal:
  assumes "recs \<noteq> []"
  shows "(\<exists>c. lowestCost recs = Inr c
            \<and> (\<forall>r \<in> set recs. js_le (predicted_cost_inr c) (predicted_cost_inr r)))
       \<and> (\<exists>e. lowestCO2 recs = Inr e
            \<and> (\<forall>r \<in> set recs. js_le (predicted_co2_kg e) (predicted_co2_kg r)))"
  using reduce_min_props[OF assms, of predicted_cost_inr]
    reduce_min_props[OF assms, of predicted_co2_kg]
  unfolding lowestCost_def lowestCO2_def by blast

theorem lowest_selections_are_minimal_witness:
  "[bamboo, plastic] \<noteq> []
   \<and> lowestCost [bamboo, plastic] = Inr plastic
   \<and> lowestCO2 [bamboo, plastic] = Inr bamboo
   \<and> js_le (predicted_cost_inr plastic) (predicted_cost_inr bamboo)
   \<and> js_le (predicted_cost_inr plastic) (predicted_cost_inr plastic)
   \<and> js_le (predicted_co2_kg bamboo) (predicted_co2_kg bamboo)
   \<and> js_le (predicted_co2_kg bamboo) (predicted_co2_kg plastic)"
proof -
  have ne: "[bamboo, plastic] \<noteq> []" by simp
  have c: "lowestCost [bamboo, plastic] = Inr plastic"
    by (simp add: lowestCost_def bamboo_def plastic_def)
  have e: "lowestCO2 [bamboo, plastic] = Inr bamboo"
    by (simp add: lowestCO2_def bamboo_def plastic_def)
  show ?thesis
    using lowest_selections_are_minimal[OF ne] ne unfolding c e by simp
qed

text \<open>
  C2. For every non-empty list of recommendation records, the selection that \<open>reduce\<close>
  makes (keeping the accumulator unless the next record is strictly smaller) is the
  result of the reference single left-to-right pass with running-minimum tracking, and is
  the first-encountered minimal element; for the cost and for the emissions alike.
\<close>

theorem reduce_is_first_minimal_pass:
  assumes "recs \<noteq> []"
  shows "(\<exists>c. lowestCost recs = Inr c
            \<and> spec_linear_pass predicted_cost_inr recs = Some c
            \<and> spec_first_minimal predicted_cost_inr recs = Some c)
       \<and> (\<exists>e. lowestCO2 recs = Inr e
            \<and> spec_linear_pass predicted_co2_kg recs = Some e
            \<and> spec_first_minimal predicted_co2_kg recs = Some e)"
  using reduce_min_props[OF assms, of predicted_cost_inr]
    reduce_min_props[OF assms, of predicted_co2_kg]
  unfolding lowestCost_def lowestCO2_def by blast

theorem reduce_is_first_minimal_pass_witness:
  "[bamboo, plastic, jute] \<noteq> []
   \<and> predicted_cost_inr jute = predicted_cost_inr plastic
   \<and> lowestCost [bamboo, plastic, jute] = Inr plastic
   \<and> spec_linear_pass predicted_cost_inr [bamboo, plastic, jute] = Some plastic
   \<and> spec_first_minimal predicted_cost_inr [bamboo, plastic, jute] = Some plastic
   \<and> predicted_co2_kg jute = predicted_co2_kg bamboo
   \<and> lowestCO2 [bamboo, plastic, jute] = Inr bamboo
   \<and> spec_linear_pass predicted_co2_kg [bamboo, plastic, jute] = Some bamboo
   \<and> spec_first_minimal predicted_co2_kg [bamboo, plastic, jute] = Some bamboo"
proof -
  have ne: "[bamboo, plastic, jute] \<noteq> []" by simp
  have c: "lowestCost [bamboo, plastic, jute] = Inr plastic"
    by (simp add: lowestCost_def bamboo_def plastic_def jute_def)
  have e: "lowestCO2 [bamboo, plastic, jute] = Inr bamboo"
    by (simp add: lowestCO2_def bamboo_def plastic_def jute_def)
  have ties: "predicted_cost_inr jute = predicted_cost_inr plastic"
      "predicted_co2_kg jute = predicted_co2_kg bamboo"
    by (simp_all add: bamboo_def plastic_def jute_def)
  show ?thesis
    using reduce_is_first_minimal_pass[OF ne] ne ties unfolding c e by simp
qed

text \<open>
  C3. For every non-empty list of recommendation records, the record that displayResults
  shows as best overall is the first element of the list, \<open>recs[0]\<close>, whatever the costs
  and emissions of the records are: its name and its eco score fill the box.
\<close>

theorem best_overall_is_first_record:
  assumes "recs \<noteq> []"
  shows "\<exists>p' a. displayResults (Some recs) p = Inr p' \<and> analyticsGrid p' = Some a
           \<and> best_overall_box a =
               \<lparr>box_value = material_name (recs ! 0),
                box_sub = ''Eco Score: '' @ toFixed (Some (eco_score (recs ! 0))) 3\<rparr>"
proof -
  obtain a xs where recs: "recs = a # xs"
    using assms by (cases recs) auto
  show ?thesis
    by (simp add: recs displayResults_def lowestCost_def lowestCO2_def at_index_def
        renderChart_def buildTable_def Let_def)
qed

theorem best_overall_is_first_record_witness:
  "[bamboo, plastic] \<noteq> []
   \<and> js_lt (predicted_cost_inr plastic) (predicted_cost_inr bamboo)
   \<and> (\<exists>p' a. displayResults (Some [bamboo, plastic]) blank_page = Inr p'
         \<and> analyticsGrid p' = Some a
         \<and> best_overall_box a = \<lparr>box_value = ''Bamboo'', box_sub = ''Eco Score: 0.875''\<rparr>)"
proof -
  have ne: "[bamboo, plastic] \<noteq> []" by simp
  have eco: "toFixed (Some (Fin (7 / 8))) 3 = ''0.875''" by code_simp
  have cheaper: "js_lt (predicted_cost_inr plastic) (predicted_cost_inr bamboo)"
    by (simp add: bamboo_def plastic_def)
  show ?thesis
    using best_overall_is_first_record[OF ne, of blank_page] ne cheaper
    by (simp add: bamboo_def eco)
qed

text \<open>
  C4. If the record sequence passed to displayResults is empty or absent, the notice
  "No recommendations found." is shown as a warning and nothing else of the page changes:
  no cards, analytics, chart or table are rendered.
\<close>

theorem empty_input_shows_notice_only:
  assumes "recs = None \<or> recs = Some []"
  shows "displayResults recs p =
           Inr (p\<lparr>alertBox := \<lparr>textContent = ''No recommendations found.'',
                               display = ''block'', className = ''alert-box warning''\<rparr>\<rparr>)"
  using assms by (auto simp: displayResults_def showAlert_def)

theorem empty_input_shows_notice_only_witness:
  "(\<exists>p'. displayResults (Some []) blank_page = Inr p'
       \<and> textContent (alertBox p') = ''No recommendations found.''
       \<and> className (alertBox p') = ''alert-box warning''
       \<and> display (alertBox p') = ''block''
       \<and> materialsGrid p' = [] \<and> analyticsGrid p' = None \<and> comparisonChart p' = None
       \<and> summaryTbody p' = [] \<and> resultsSection_display p' = ''none'')
   \<and> (\<exists>p'. displayResults None blank_page = Inr p'
       \<and> textContent (alertBox p') = ''No recommendations found.''
       \<and> materialsGrid p' = [] \<and> analyticsGrid p' = None \<and> comparisonChart p' = None
       \<and> summaryTbody p' = [] \<and> resultsSection_display p' = ''none'')"
  using empty_input_shows_notice_only[of "Some []" blank_page]
    empty_input_shows_notice_only[of None blank_page]
  by (simp add: blank_page_def)

text \<open>
  C5. For every record list rendered by buildTable, the rank shown in the row of the
  record at 0-indexed position \<open>i\<close> is \<open>i + 1\<close>: the rows follow the input order, one for
  each record, and the rank cell of row \<open>i\<close> is the decimal numeral of \<open>i + 1\<close>.
\<close>

theorem table_rank_is_position_plus_one:
  assumes "i < length recs"
  shows "length (summaryTbody (buildTable recs p)) = length recs
       \<and> row_name (summaryTbody (buildTable recs p) ! i) = material_name (recs ! i)
       \<and> row_rank (summaryTbody (buildTable recs p) ! i) = digits_of (int i + 1)
       \<and> digits_value (row_rank (summaryTbody (buildTable recs p) ! i)) = int i + 1"
  using assms buildTable_rows[where recs = recs and p = p] digits_value_digits_of[of "int i + 1"]
  by (simp add: make_row_def)

theorem table_rank_is_position_plus_one_witness:
  "(1::nat) < length [bamboo, plastic]
   \<and> row_name (summaryTbody (buildTable [bamboo, plastic] blank_page) ! 1) = ''Plastic''
   \<and> row_rank (summaryTbody (buildTable [bamboo, plastic] blank_page) ! 1) = ''2''"
proof -
  have i: "(1::nat) < length [bamboo, plastic]" by simp
  have two: "digits_of 2 = ''2''" by code_simp
  show ?thesis
    using table_rank_is_position_plus_one[OF i, of blank_page] i
    by (simp add: plastic_def two)
qed

text \<open>
  C6, as the specification states it, fails: a record whose cost is the double \<open>1e21\<close> is
  rendered with the cost text \<open>1e+21\<close>, which has no decimal places.
\<close>

theorem cost_1e21_shown_without_decimals:
  "round_double (10 ^ 21) = Fin (10 ^ 21)
   \<and> predicted_cost_inr costly = Fin (10 ^ 21)
   \<and> row_cost (summaryTbody (buildTable [costly] blank_page) ! 0) = ''1e+21''
   \<and> \<not> fixed_point 2 (row_cost (summaryTbody (buildTable [costly] blank_page) ! 0))"
  using buildTable_rows(2)[of 0 "[costly]" blank_page] costly_row
  by (simp add: costly_def)

text \<open>
  C6, amended. For every rendered record whose suitability score is in \<open>[0, 1]\<close> and whose
  cost, emissions and eco score are finite and below \<open>10^21\<close> in magnitude, the row of the
  table and the card show the suitability as a percentage with one decimal place, the
  cost with two, the emissions with four and the eco score with three, each within half
  a unit of its last place of the number shown; and the record with suitability
  \<open>0.876\<close>, cost \<open>199.5\<close>, emissions \<open>0.01234\<close> and eco score \<open>0.5\<close> is shown as \<open>87.6%\<close>,
  \<open>199.50\<close>, \<open>0.0123 kg\<close> and \<open>0.500\<close>.
\<close>

theorem formatted_cells_have_fixed_decimals:
  fixes recs :: "recommendation list" and p :: page
  assumes "i < length recs"
    and "suitability_score (recs ! i) = Fin s" and "0 \<le> s" and "s \<le> 1"
    and "predicted_cost_inr (recs ! i) = Fin c" and "\<bar>c\<bar> < 10 ^ 21"
    and "predicted_co2_kg (recs ! i) = Fin k" and "\<bar>k\<bar> < 10 ^ 21"
    and "eco_score (recs ! i) = Fin e" and "\<bar>e\<bar> < 10 ^ 21"
  defines "row \<equiv> summaryTbody (buildTable recs p) ! i"
    and "tile \<equiv> append_cards 0 recs [] ! i"
  shows "(\<exists>ts tc tk te y.
            row_suitability row = ts @ ''%'' \<and> row_cost row = tc
          \<and> row_co2 row = tk @ '' kg'' \<and> row_eco row = te
          \<and> fixed_point 1 ts \<and> fixed_point 2 tc \<and> fixed_point 4 tk \<and> fixed_point 3 te
          \<and> js_mul (Fin s) (Fin 100) = Some (Fin y)
          \<and> \<bar>fixed_value ts - y\<bar> \<le> 1 / 20
          \<and> \<bar>fixed_value tc - c\<bar> \<le> 1 / 200
          \<and> \<bar>fixed_value tk - k\<bar> \<le> 1 / 20000
          \<and> \<bar>fixed_value te - e\<bar> \<le> 1 / 2000)
       \<and> card_suitability tile = row_suitability row \<and> card_cost tile = row_cost row
       \<and> card_co2 tile = row_co2 row \<and> card_eco tile = row_eco row
       \<and> summaryTbody (buildTable [sample] p) ! 0 =
           \<lparr>row_name = ''Kraft Paper'', row_type = ''Paper'', row_suitability = ''87.6%'',
            row_cost = ''199.50'', row_co2 = ''0.0123 kg'', row_eco = ''0.500'',
            row_rank = ''1''\<rparr>"
proof -
  have row: "row = make_row (recs ! i) i"
    unfolding row_def using buildTable_rows(2)[OF assms(1)] by simp
  have tile: "tile = make_card (recs ! i) i"
    unfolding tile_def using append_cards_nth[OF assms(1)] by simp
  obtain y where y: "js_mul (Fin s) (Fin 100) = Some (Fin y)"
      "fixed_point 1 (percent (Fin s))" "\<bar>fixed_value (percent (Fin s)) - y\<bar> \<le> 1 / 20"
    using percent_fixed_point[OF assms(3,4)] by blast
  have tc: "fixed_point 2 (toFixed (Some (Fin c)) 2)"
      "\<bar>fixed_value (toFixed (Some (Fin c)) 2) - c\<bar> \<le> 1 / 200"
    using toFixed_fixed_point[OF assms(6), of 2] by simp_all
  have tk: "fixed_point 4 (toFixed (Some (Fin k)) 4)"
      "\<bar>fixed_value (toFixed (Some (Fin k)) 4) - k\<bar> \<le> 1 / 20000"
    using toFixed_fixed_point[OF assms(8), of 4] by simp_all
  have te: "fixed_point 3 (toFixed (Some (Fin e)) 3)"
      "\<bar>fixed_value (toFixed (Some (Fin e)) 3) - e\<bar> \<le> 1 / 2000"
    using toFixed_fixed_point[OF assms(10), of 3] by simp_all
  have cells: "row_suitability row = percent (Fin s) @ ''%''"
      "row_cost row = toFixed (Some (Fin c)) 2"
      "row_co2 row = toFixed (Some (Fin k)) 4 @ '' kg''"
      "row_eco row = toFixed (Some (Fin e)) 3"
    by (simp_all add: row make_row_def assms(2,5,7,9))
  have shown: "\<exists>ts tc tk te y.
            row_suitability row = ts @ ''%'' \<and> row_cost row = tc
          \<and> row_co2 row = tk @ '' kg'' \<and> row_eco row = te
          \<and> fixed_point 1 ts \<and> fixed_point 2 tc \<and> fixed_point 4 tk \<and> fixed_point 3 te
          \<and> js_mul (Fin s) (Fin 100) = Some (Fin y)
          \<and> \<bar>fixed_value ts - y\<bar> \<le> 1 / 20
          \<and> \<bar>fixed_value tc - c\<bar> \<le> 1 / 200
          \<and> \<bar>fixed_value tk - k\<bar> \<le> 1 / 20000
          \<and> \<bar>fixed_value te - e\<bar> \<le> 1 / 2000"
    using cells y tc tk te by blast
  have same: "card_suitability tile = row_suitability row" "card_cost tile = row_cost row"
      "card_co2 tile = row_co2 row" "card_eco tile = row_eco row"
    by (simp_all add: row tile make_row_def make_card_def)
  have example: "summaryTbody (buildTable [sample] p) ! 0 =
           \<lparr>row_name = ''Kraft Paper'', row_type = ''Paper'', row_suitability = ''87.6%'',
            row_cost = ''199.50'', row_co2 = ''0.0123 kg'', row_eco = ''0.500'',
            row_rank = ''1''\<rparr>"
    using buildTable_rows(2)[of 0 "[sample]" p] sample_row by simp
  show ?thesis
    using shown same example by blast
qed

theorem formatted_cells_have_fixed_decimals_witness:
  "(0::nat) < length [sample]
   \<and> suitability_score ([sample] ! 0) = Fin (7890306547153109 / 9007199254740992)
   \<and> (0::rat) \<le> 7890306547153109 / 9007199254740992
   \<and> (7890306547153109 / 9007199254740992 :: rat) \<le> 1
   \<and> predicted_cost_inr ([sample] ! 0) = Fin (1995 / 10)
   \<and> \<bar>1995 / 10 :: rat\<bar> < 10 ^ 21
   \<and> predicted_co2_kg ([sample] ! 0) = Fin (3556762841712123 / 288230376151711744)
   \<and> \<bar>3556762841712123 / 288230376151711744 :: rat\<bar> < 10 ^ 21
   \<and> eco_score ([sample] ! 0) = Fin (1 / 2)
   \<and> \<bar>1 / 2 :: rat\<bar> < 10 ^ 21
   \<and> fixed_point 1 ''87.6'' \<and> fixed_point 2 ''199.50''
   \<and> fixed_point 4 ''0.0123'' \<and> fixed_point 3 ''0.500''
   \<and> \<bar>fixed_value ''199.50'' - 1995 / 10\<bar> \<le> 1 / 200
   \<and> \<bar>fixed_value ''0.0123'' - 3556762841712123 / 288230376151711744\<bar> \<le> 1 / 20000
   \<and> \<bar>fixed_value ''0.500'' - 1 / 2\<bar> \<le> 1 / 2000
   \<and> card_cost (append_cards 0 [sample] [] ! 0) = ''199.50''"
proof -
  have h: "(0::nat) < length [sample]"
      "suitability_score ([sample] ! 0) = Fin (7890306547153109 / 9007199254740992)"
      "(0::rat) \<le> 7890306547153109 / 9007199254740992"
      "(7890306547153109 / 9007199254740992 :: rat) \<le> 1"
      "predicted_cost_inr ([sample] ! 0) = Fin (1995 / 10)"
      "\<bar>1995 / 10 :: rat\<bar> < 10 ^ 21"
      "predicted_co2_kg ([sample] ! 0) = Fin (3556762841712123 / 288230376151711744)"
      "\<bar>3556762841712123 / 288230376151711744 :: rat\<bar> < 10 ^ 21"
      "eco_score ([sample] ! 0) = Fin (1 / 2)"
      "\<bar>1 / 2 :: rat\<bar> < 10 ^ 21"
    by (simp_all add: sample_fields)
  have row: "summaryTbody (buildTable [sample] blank_page) ! 0 =
           \<lparr>row_name = ''Kraft Paper'', row_type = ''Paper'', row_suitability = ''87.6%'',
            row_cost = ''199.50'', row_co2 = ''0.0123 kg'', row_eco = ''0.500'',
            row_rank = ''1''\<rparr>"
    using formatted_cells_have_fixed_decimals[OF h, of blank_page] by blast
  have "\<exists>ts tc tk te y.
            ''87.6%'' = ts @ ''%'' \<and> ''199.50'' = tc
          \<and> ''0.0123 kg'' = tk @ '' kg'' \<and> ''0.500'' = te
          \<and> fixed_point 1 ts \<and> fixed_point 2 tc \<and> fixed_point 4 tk \<and> fixed_point 3 te
          \<and> js_mul (Fin (7890306547153109 / 9007199254740992)) (Fin 100) = Some (Fin y)
          \<and> \<bar>fixed_value ts - y\<bar> \<le> 1 / 20
          \<and> \<bar>fixed_value tc - 1995 / 10\<bar> \<le> 1 / 200
          \<and> \<bar>fixed_value tk - 3556762841712123 / 288230376151711744\<bar> \<le> 1 / 20000
          \<and> \<bar>fixed_value te - 1 / 2\<bar> \<le> 1 / 2000"
    using formatted_cells_have_fixed_decimals[OF h, of blank_page] unfolding row by simp
  then have shown: "fixed_point 1 ''87.6'' \<and> fixed_point 2 ''199.50''
      \<and> fixed_point 4 ''0.0123'' \<and> fixed_point 3 ''0.500''
      \<and> \<bar>fixed_value ''199.50'' - 1995 / 10\<bar> \<le> 1 / 200
      \<and> \<bar>fixed_value ''0.0123'' - 3556762841712123 / 288230376151711744\<bar> \<le> 1 / 20000
      \<and> \<bar>fixed_value ''0.500'' - 1 / 2\<bar> \<le> 1 / 2000"
    by auto
  have card: "card_cost (append_cards 0 [sample] [] ! 0) = ''199.50''"
    using formatted_cells_have_fixed_decimals[OF h, of blank_page] unfolding row by simp
  show ?thesis
    using h shown card by blast
qed

text \<open>
  C7. Every recommendation request that runRecommendation submits has a \<open>top_n\<close> that is
  3, 5 or 10: for every value of the selector, the parsed value is sent if it is 3, 5 or
  10, and 5 is sent otherwise.
\<close>

theorem top_n_is_3_5_or_10:
  assumes "PostRecommend pl \<in> set (snd (runRecommendation net p))"
  shows "top_n pl \<in> {Fin 3, Fin 5, Fin 10}
       \<and> top_n pl = (case parseInt (topNSelect_value p) of
                       None \<Rightarrow> Fin 5
                     | Some n \<Rightarrow> if n = Fin 3 \<or> n = Fin 5 \<or> n = Fin 10 then n else Fin 5)"
proof (cases "trim (categorySelect_value p) = []")
  case True
  then show ?thesis
    using assms by (simp add: runRecommendation_no_category)
next
  case cat: False
  show ?thesis
  proof (cases "parseFloat (weightInput_value p)")
    case None
    then show ?thesis
      using assms cat by (simp add: runRecommendation_bad_weight)
  next
    case (Some w)
    show ?thesis
    proof (cases "js_le w (Fin 0)")
      case True
      then show ?thesis
        using assms cat Some by (simp add: runRecommendation_bad_weight)
    next
      case False
      from runRecommendation_sent[OF cat Some False, of net]
      have "top_n pl = choose_topN (parseInt (topNSelect_value p))"
        using assms by auto
      then show ?thesis
        by (auto simp: choose_topN_def split: option.splits)
    qed
  qed
qed

theorem top_n_is_3_5_or_10_witness:
  "PostRecommend \<lparr>category = ''Electronics'', weight = Fin (5 / 2), top_n = Fin 10,
                  fragility_override = ''auto'', budget_limit = NoBudget\<rparr>
     \<in> set (snd (runRecommendation comparison_refused filled_form))
   \<and> parseInt (topNSelect_value filled_form) = Some (Fin 10)
   \<and> top_n \<lparr>category = ''Electronics'', weight = Fin (5 / 2), top_n = Fin 10,
             fragility_override = ''auto'', budget_limit = NoBudget\<rparr> \<in> {Fin 3, Fin 5, Fin 10}
   \<and> parseInt (topNSelect_value (filled_form\<lparr>topNSelect_value := ''7''\<rparr>)) = Some (Fin 7)
   \<and> (\<exists>pl. PostRecommend pl
            \<in> set (snd (runRecommendation comparison_refused
                          (filled_form\<lparr>topNSelect_value := ''7''\<rparr>)))
         \<and> top_n pl = Fin 5)"
proof -
  have sent: "PostRecommend \<lparr>category = ''Electronics'', weight = Fin (5 / 2), top_n = Fin 10,
                  fragility_override = ''auto'', budget_limit = NoBudget\<rparr>
     \<in> set (snd (runRecommendation comparison_refused filled_form))"
    using filled_form_sent[of comparison_refused] by auto
  have ten: "parseInt (topNSelect_value filled_form) = Some (Fin 10)
      \<and> top_n \<lparr>category = ''Electronics'', weight = Fin (5 / 2), top_n = Fin 10,
             fragility_override = ''auto'', budget_limit = NoBudget\<rparr> \<in> {Fin 3, Fin 5, Fin 10}"
    using top_n_is_3_5_or_10[OF sent]
    by (simp add: filled_form_fields parse_examples)
  let ?p = "filled_form\<lparr>topNSelect_value := ''7''\<rparr>"
  have v: "trim (categorySelect_value ?p) \<noteq> []"
      "parseFloat (weightInput_value ?p) = Some (Fin (5 / 2))"
      "\<not> js_le (Fin (5 / 2)) (Fin 0)"
    by (simp_all add: filled_form_fields parse_examples)
  obtain pl where pl: "PostRecommend pl \<in> set (snd (runRecommendation comparison_refused ?p))"
    using runRecommendation_sent[OF v, of comparison_refused] by auto
  have seven: "parseInt (topNSelect_value ?p) = Some (Fin 7)"
    by (simp add: parse_seven)
  have "top_n pl = Fin 5"
    using top_n_is_3_5_or_10[OF pl] by (simp add: parse_seven)
  then show ?thesis
    using sent ten seven pl by blast
qed

text \<open>
  C8. runRecommendation submits a recommendation request only when the trimmed category
  is not empty and the parsed weight is a number strictly greater than 0, and then it
  does submit one; when the category is empty, or the weight is NaN or at most 0, a
  warning is shown and no request is sent.
\<close>

theorem request_needs_category_and_positive_weight:
  "if trim (categorySelect_value p) \<noteq> []
      \<and> (\<exists>w. parseFloat (weightInput_value p) = Some w \<and> js_lt (Fin 0) w)
   then \<exists>pl rest. snd (runRecommendation net p) = PostRecommend pl # rest
          \<and> category pl = trim (categorySelect_value p)
          \<and> parseFloat (weightInput_value p) = Some (weight pl)
   else snd (runRecommendation net p) = []
          \<and> alertBox (fst (runRecommendation net p)) =
               \<lparr>textContent =
                  (if trim (categorySelect_value p) = []
                   then ''Please select a product category.''
                   else ''Please enter a valid product weight.''),
                display = ''block'', className = ''alert-box warning''\<rparr>"
proof (cases "trim (categorySelect_value p) = []")
  case True
  then show ?thesis
    by (simp add: runRecommendation_no_category showAlert_def)
next
  case cat: False
  show ?thesis
  proof (cases "parseFloat (weightInput_value p)")
    case None
    then show ?thesis
      using cat by (simp add: runRecommendation_bad_weight showAlert_def)
  next
    case (Some w)
    show ?thesis
    proof (cases "js_le w (Fin 0)")
      case True
      then have "\<not> js_lt (Fin 0) w"
        using not_js_le by blast
      then show ?thesis
        using cat Some True by (simp add: runRecommendation_bad_weight showAlert_def)
    next
      case False
      then have pos: "js_lt (Fin 0) w"
        using not_js_le by blast
      obtain rest where "snd (runRecommendation net p) =
          PostRecommend
            \<lparr>category = trim (categorySelect_value p), weight = w,
             top_n = choose_topN (parseInt (topNSelect_value p)),
             fragility_override = fragilitySelect_value p,
             budget_limit = (if trim (budgetInput_value p) \<noteq> []
                         then Budget (parseFloat (trim (budgetInput_value p))) else NoBudget)\<rparr> # rest"
        using runRecommendation_sent[OF cat Some False, of net] by blast
      then show ?thesis
        using cat Some pos by simp
    qed
  qed
qed

theorem request_needs_category_and_positive_weight_witness:
  "(\<exists>pl rest. snd (runRecommendation comparison_refused filled_form) = PostRecommend pl # rest
       \<and> category pl = ''Electronics'' \<and> weight pl = Fin (5 / 2))
   \<and> snd (runRecommendation comparison_refused blank_page) = []
   \<and> textContent (alertBox (fst (runRecommendation comparison_refused blank_page)))
       = ''Please select a product category.''
   \<and> snd (runRecommendation comparison_refused (filled_form\<lparr>weightInput_value := ''0''\<rparr>)) = []
   \<and> alertBox (fst (runRecommendation comparison_refused (filled_form\<lparr>weightInput_value := ''0''\<rparr>)))
       = \<lparr>textContent = ''Please enter a valid product weight.'',
          display = ''block'', className = ''alert-box warning''\<rparr>"
proof -
  have a: "\<exists>pl rest. snd (runRecommendation comparison_refused filled_form) = PostRecommend pl # rest
       \<and> category pl = ''Electronics'' \<and> weight pl = Fin (5 / 2)"
    using request_needs_category_and_positive_weight[of filled_form comparison_refused]
    by (auto simp: filled_form_fields parse_examples)
  have b: "snd (runRecommendation comparison_refused blank_page) = []
      \<and> textContent (alertBox (fst (runRecommendation comparison_refused blank_page)))
       = ''Please select a product category.''"
    using request_needs_category_and_positive_weight[of blank_page comparison_refused]
    by (simp add: blank_page_def parse_examples)
  have c: "snd (runRecommendation comparison_refused (filled_form\<lparr>weightInput_value := ''0''\<rparr>)) = []
   \<and> alertBox (fst (runRecommendation comparison_refused (filled_form\<lparr>weightInput_value := ''0''\<rparr>)))
       = \<lparr>textContent = ''Please enter a valid product weight.'',
          display = ''block'', className = ''alert-box warning''\<rparr>"
    using request_needs_category_and_positive_weight[of "filled_form\<lparr>weightInput_value := ''0''\<rparr>"
        comparison_refused]
    by (simp add: filled_form_fields parse_examples)
  show ?thesis
    using a b c by blast
qed

text \<open>
  C9. The claim: for every external source (category list, material list, recommendation,
  comparison), a response with a status that is not \<open>success\<close>, or a transport error,
  results in a user-visible message; in particular a non-success status from the
  comparison source is surfaced as a notice. The code does not do this for the comparison
  source: with the form filled in, the recommendation request answered with two records
  and the comparison request answered with status \<open>error\<close>, both requests are sent, the
  alert box stays hidden and empty, and the savings section stays hidden. The handlers of
  the three other sources throw on such a status and show their alert
  (\<open>loaders_report_failure\<close>, \<open>failures_after_valid_form\<close>).
\<close>

theorem comparison_status_not_surfaced:
  "upstream_failure (compare comparison_refused
       \<lparr>cmp_category = ''Electronics'', cmp_weight = Fin (5 / 2),
        cmp_current_material = ''Plastic''\<rparr>)
   \<and> snd (runRecommendation comparison_refused filled_form) =
       [PostRecommend \<lparr>category = ''Electronics'', weight = Fin (5 / 2), top_n = Fin 10,
                       fragility_override = ''auto'', budget_limit = NoBudget\<rparr>,
        PostCompare \<lparr>cmp_category = ''Electronics'', cmp_weight = Fin (5 / 2),
                     cmp_current_material = ''Plastic''\<rparr>]
   \<and> display (alertBox (fst (runRecommendation comparison_refused filled_form))) = ''none''
   \<and> textContent (alertBox (fst (runRecommendation comparison_refused filled_form))) = []
   \<and> savingsSection_display (fst (runRecommendation comparison_refused filled_form)) = ''none''"
  using filled_form_comparison_refused
  by (simp add: upstream_failure_def comparison_refused_def)

text \<open>
  C10. For every non-empty list of recommendation records, the lowest-cost selection and
  the lowest-emissions selection are each an element of the input list, a whole input
  record and not one put together from fields of several.
\<close>

theorem lowest_selections_are_input_records:
  assumes "recs \<noteq> []"
  shows "(\<exists>c \<in> set recs. lowestCost recs = Inr c) \<and> (\<exists>e \<in> set recs. lowestCO2 recs = Inr e)"
  using reduce_min_props[OF assms, of predicted_cost_inr]
    reduce_min_props[OF assms, of predicted_co2_kg]
  unfolding lowestCost_def lowestCO2_def by blast

theorem lowest_selections_are_input_records_witness:
  "[bamboo, plastic] \<noteq> []
   \<and> (\<exists>c \<in> set [bamboo, plastic]. lowestCost [bamboo, plastic] = Inr c)
   \<and> (\<exists>e \<in> set [bamboo, plastic]. lowestCO2 [bamboo, plastic] = Inr e)"
proof -
  have ne: "[bamboo, plastic] \<noteq> []" by simp
  show ?thesis
    using lowest_selections_are_input_records[OF ne] ne by blast
qed

end
